theory Spec2Isabelle
  imports Complex_Main "HOL-Library.AList" "HOL-Library.Multiset" "HOL-Library.Log_Nat"
begin

section \<open>Values of the configuration and Python's operations on them\<close>

text \<open>
  The recipe \<^verbatim>\<open>recipes/dcase2021_task4_baseline/train_sed.py\<close> reads a YAML configuration
  into nested Python dictionaries and passes its entries on to the datasets, the sampler,
  the optimizer, the scheduler and the trainer. A configuration value is modelled as a
  \<open>pyval\<close>: a dictionary is an association list in insertion order, with string keys as
  in the configuration files; a float is the rational value of its literal (the recipe
  does no float arithmetic of its own on the values that the properties below are about;
  where pandas multiplies the sampling fraction, the literal is first rounded to the
  double that Python holds).
\<close>

datatype pyval =
    PNone
  | PBool bool
  | PInt int
  | PFloat rat
  | PStr string
  | PList "pyval list"
  | PDict "(string \<times> pyval) list"

text \<open>
  Every exception that the modelled lines can raise is a value. \<open>Unmodelled\<close> is not a
  Python exception: it marks an operand on which Python would go on with float
  arithmetic, which this development does not model.
\<close>

datatype error =
    KeyError
  | IndexError
  | TypeError
  | AttributeError
  | ValueError
  | ZeroDivisionError
  | UnboundLocalError
  | Unmodelled

definition bind_err :: "error + 'a \<Rightarrow> ('a \<Rightarrow> error + 'b) \<Rightarrow> error + 'b" where
  "bind_err m f = (case m of Inl e \<Rightarrow> Inl e | Inr a \<Rightarrow> f a)"

text \<open>\<^verbatim>\<open>if v:\<close> -- Python's truth value of a configuration value.\<close>

fun truthy :: "pyval \<Rightarrow> bool" where
  "truthy PNone = False"
| "truthy (PBool b) = b"
| "truthy (PInt i) = (i \<noteq> 0)"
| "truthy (PFloat r) = (r \<noteq> 0)"
| "truthy (PStr s) = (s \<noteq> [])"
| "truthy (PList xs) = (xs \<noteq> [])"
| "truthy (PDict kvs) = (kvs \<noteq> [])"

text \<open>\<^verbatim>\<open>v[k]\<close> with a string key: only a dictionary accepts it.\<close>

fun getitem :: "pyval \<Rightarrow> string \<Rightarrow> error + pyval" where
  "getitem (PDict kvs) k = (case map_of kvs k of None \<Rightarrow> Inl KeyError | Some v \<Rightarrow> Inr v)"
| "getitem _ k = Inl TypeError"

text \<open>\<^verbatim>\<open>config[a][b]\<close>.\<close>

definition getitem2 :: "pyval \<Rightarrow> string \<Rightarrow> string \<Rightarrow> error + pyval" where
  "getitem2 config a b = bind_err (getitem config a) (\<lambda>section. getitem section b)"

text \<open>\<^verbatim>\<open>v[k] = x\<close> with a string key: an existing key keeps its place, a new key goes last.\<close>

fun setitem :: "pyval \<Rightarrow> string \<Rightarrow> pyval \<Rightarrow> error + pyval" where
  "setitem (PDict kvs) k x = Inr (PDict (AList.update k x kvs))"
| "setitem _ k x = Inl TypeError"

text \<open>\<^verbatim>\<open>v.get(k)\<close>: \<^verbatim>\<open>None\<close> for a missing key; only a dictionary has the method.\<close>

fun dict_get :: "pyval \<Rightarrow> string \<Rightarrow> error + pyval" where
  "dict_get (PDict kvs) k = (case map_of kvs k of None \<Rightarrow> Inr PNone | Some v \<Rightarrow> Inr v)"
| "dict_get _ k = Inl AttributeError"

text \<open>\<^verbatim>\<open>v.update({k: x})\<close>.\<close>

fun dict_update :: "pyval \<Rightarrow> string \<Rightarrow> pyval \<Rightarrow> error + pyval" where
  "dict_update (PDict kvs) k x = Inr (PDict (AList.update k x kvs))"
| "dict_update _ k x = Inl AttributeError"

text \<open>
  \<^verbatim>\<open>v[indx]\<close> with \<open>indx\<close> drawn from \<^verbatim>\<open>range(...)\<close>, hence not negative. A dictionary
  of this model has string keys only, so an integer key is never found.
\<close>

fun index_item :: "pyval \<Rightarrow> nat \<Rightarrow> error + pyval" where
  "index_item (PList xs) i = (if i < length xs then Inr (xs ! i) else Inl IndexError)"
| "index_item (PStr s) i = (if i < length s then Inr (PStr [s ! i]) else Inl IndexError)"
| "index_item (PDict kvs) i = Inl KeyError"
| "index_item _ i = Inl TypeError"

text \<open>An \<^verbatim>\<open>int\<close> operand; \<^verbatim>\<open>bool\<close> is a subclass of \<^verbatim>\<open>int\<close>.\<close>

fun as_int :: "pyval \<Rightarrow> int option" where
  "as_int (PInt i) = Some i"
| "as_int (PBool b) = Some (if b then 1 else 0)"
| "as_int _ = None"

text \<open>Sequence repetition \<^verbatim>\<open>s * n\<close>: empty for \<open>n \<le> 0\<close>.\<close>

definition repeat_seq :: "'a list \<Rightarrow> int \<Rightarrow> 'a list" where
  "repeat_seq xs n = concat (replicate (nat n) xs)"

text \<open>
  \<^verbatim>\<open>a * b\<close>: the product of two integers, the repetition of a string or list by an
  integer, float arithmetic (not modelled) when a float meets a number, and a
  \<^verbatim>\<open>TypeError\<close> otherwise.
\<close>

fun py_mul :: "pyval \<Rightarrow> pyval \<Rightarrow> error + pyval" where
  "py_mul (PFloat x) b =
     (case b of PFloat y \<Rightarrow> Inl Unmodelled | PInt j \<Rightarrow> Inl Unmodelled
      | PBool c \<Rightarrow> Inl Unmodelled | _ \<Rightarrow> Inl TypeError)"
| "py_mul (PStr s) b = (case as_int b of Some j \<Rightarrow> Inr (PStr (repeat_seq s j)) | None \<Rightarrow> Inl TypeError)"
| "py_mul (PList xs) b = (case as_int b of Some j \<Rightarrow> Inr (PList (repeat_seq xs j)) | None \<Rightarrow> Inl TypeError)"
| "py_mul PNone b = Inl TypeError"
| "py_mul (PDict kvs) b = Inl TypeError"
| "py_mul a b =
     (case as_int a of None \<Rightarrow> Inl TypeError
      | Some i \<Rightarrow>
         (case b of
            PFloat y \<Rightarrow> Inl Unmodelled
          | PStr s \<Rightarrow> Inr (PStr (repeat_seq s i))
          | PList xs \<Rightarrow> Inr (PList (repeat_seq xs i))
          | _ \<Rightarrow> (case as_int b of Some j \<Rightarrow> Inr (PInt (i * j)) | None \<Rightarrow> Inl TypeError)))"

text \<open>
  \<^verbatim>\<open>n // d\<close> for an integer \<open>n\<close>: floor division, as \<open>div\<close> on \<open>int\<close> is, and
  \<^verbatim>\<open>ZeroDivisionError\<close> for a zero divisor (where \<open>div\<close> would give 0).
\<close>

fun py_floordiv :: "int \<Rightarrow> pyval \<Rightarrow> error + int" where
  "py_floordiv n (PFloat y) = Inl Unmodelled"
| "py_floordiv n d =
     (case as_int d of None \<Rightarrow> Inl TypeError
      | Some j \<Rightarrow> if j = 0 then Inl ZeroDivisionError else Inr (n div j))"

text \<open>\<^verbatim>\<open>min(xs)\<close> of a list of integers: \<^verbatim>\<open>ValueError\<close> on the empty list.\<close>

fun py_min :: "int list \<Rightarrow> error + int" where
  "py_min [] = Inl ValueError"
| "py_min (x # xs) = Inr (fold min xs x)"

text \<open>A list comprehension whose elements may raise: the first exception ends it.\<close>

fun sequence_err :: "(error + 'a) list \<Rightarrow> error + 'a list" where
  "sequence_err [] = Inr []"
| "sequence_err (m # ms) =
     bind_err m (\<lambda>x. bind_err (sequence_err ms) (\<lambda>xs. Inr (x # xs)))"


section \<open>Data frames, dataset views and the collaborators of the recipe\<close>

text \<open>
  A data frame is the list of its rows, each with its index label. \<^verbatim>\<open>pd.read_csv\<close>
  labels the rows \<open>0, 1, ...\<close>; \<^verbatim>\<open>reset_index(drop=True)\<close> relabels them so and keeps
  their order; \<^verbatim>\<open>drop(labels)\<close> removes the rows that carry one of the labels and raises
  \<^verbatim>\<open>KeyError\<close> when a label is not in the frame.
\<close>

type_synonym row = "string list"
type_synonym dataframe = "(nat \<times> row) list"

definition range_index :: "row list \<Rightarrow> dataframe" where
  "range_index rows = zip [0..<length rows] rows"

definition reset_index :: "dataframe \<Rightarrow> dataframe" where
  "reset_index df = range_index (map snd df)"

definition df_drop :: "nat list \<Rightarrow> dataframe \<Rightarrow> error + dataframe" where
  "df_drop labels df =
     (if list_all (\<lambda>l. l \<in> set (map fst df)) labels
      then Inr (filter (\<lambda>p. fst p \<notin> set labels) df)
      else Inl KeyError)"

text \<open>
  The label encoder and the three dataset classes come from the \<^verbatim>\<open>desed_task\<close>
  package; the recipe only constructs them. A view records the class, the arguments of
  the constructor call and, for \<^verbatim>\<open>return_filename\<close>, whether the call passes the
  keyword at all (\<open>None\<close>: not passed, the class's default applies).
\<close>

record encoder =
  labels :: "string list"
  audio_len :: pyval
  frame_len :: pyval
  frame_hop :: pyval
  net_pooling :: pyval
  fs :: pyval

datatype view_kind = StronglyAnnotatedSet | WeakSet | UnlabelledSet

record view =
  kind :: view_kind
  folder :: pyval
  frame :: "dataframe option"
  enc :: encoder
  return_filename :: "bool option"
  pad_to :: pyval

text \<open>
  What the recipe takes from outside: the class vocabulary of \<^verbatim>\<open>local.classes_dict\<close>,
  the TSV files read by pandas, the permutation of \<open>0, ..., n - 1\<close> that numpy's
  generator for a random state draws, the length that a dataset reports, the two files
  loaded at the entry point, the result of \<^verbatim>\<open>local.resample_folder.resample_folder\<close>
  (whether it resampled), which paths exist when the program starts, and the exception,
  if any, with which a seeding call rejects the seed it is given.
  For the random state \<^verbatim>\<open>None\<close> numpy draws from its global generator;
  \<open>rng_permutation\<close> then stands for that one draw.
\<close>

record env =
  classes_labels :: "string list"
  read_csv :: "pyval \<Rightarrow> row list"
  rng_permutation :: "pyval \<Rightarrow> nat \<Rightarrow> nat list"
  dataset_len :: "view \<Rightarrow> nat"
  yaml_safe_load :: "string \<Rightarrow> pyval"
  torch_load :: "string \<Rightarrow> pyval"
  resample_folder :: "pyval \<Rightarrow> pyval \<Rightarrow> pyval \<Rightarrow> bool"
  path_exists :: "pyval \<Rightarrow> bool"
  seed_raises :: "pyval \<Rightarrow> nat \<Rightarrow> error option"

section \<open>\<^verbatim>\<open>DataFrame.sample(frac=..., random_state=...)\<close>\<close>

text \<open>
  The recipe calls pandas to sample the weak set. What pandas and numpy do in that call
  is modelled after their sources (pandas 1.2, numpy's legacy \<^verbatim>\<open>RandomState\<close>):
  \<^verbatim>\<open>
  rs = com.random_state(random_state)
  if n is None and frac is None: n = 1
  elif frac is not None and frac > 1 and not replace: raise ValueError(...)
  elif n is None and frac is not None: n = round(frac * axis_length)
  if n < 0: raise ValueError(...)
  locs = rs.choice(axis_length, size=n, replace=replace, p=weights)
  return self.take(locs, axis=axis)
  \<close>
  and, in \<^verbatim>\<open>choice\<close> without replacement and without weights,
  \<^verbatim>\<open>idx = self.permutation(pop_size)[:size]\<close>, after a \<^verbatim>\<open>ValueError\<close> when
  \<^verbatim>\<open>size > pop_size\<close>.
\<close>

text \<open>
  Python's \<^verbatim>\<open>round\<close> of a float: to the nearest integer, a tie to the even one.
\<close>

definition py_round :: "rat \<Rightarrow> int" where
  "py_round x =
     (let f = \<lfloor>x\<rfloor>; d = x - of_int f
      in if d < 1 / 2 then f else if 1 / 2 < d then f + 1 else if even f then f else f + 1)"

text \<open>
  The double nearest to a rational, a tie to the even significand (IEEE 754 binary64,
  53 bits, subnormal below \<open>2 powi (- 1022)\<close>; overflow is left out). \<open>ilog2 x\<close> is the
  exponent \<open>e\<close> with \<open>2 powi e \<le> x < 2 powi (e + 1)\<close>, for \<open>x > 0\<close>.
\<close>

definition ilog2 :: "rat \<Rightarrow> int" where
  "ilog2 x =
     (let (a, b) = quotient_of x; d = bitlen a - bitlen b
      in if 2 powi d \<le> x then d else d - 1)"

definition fl :: "rat \<Rightarrow> rat" where
  "fl x =
     (if x = 0 then 0
      else let e = max (ilog2 \<bar>x\<bar> - 52) (- 1074)
           in of_int (py_round (x / 2 powi e)) * 2 powi e)"

text \<open>
  \<^verbatim>\<open>round(frac * axis_length)\<close> after the check \<^verbatim>\<open>frac > 1\<close>: a float fraction is the
  double of its literal, the length is converted to a double, and the product is
  rounded to a double; an integer fraction multiplies exactly; no fraction means one row.
\<close>

fun sample_size :: "pyval \<Rightarrow> nat \<Rightarrow> error + int" where
  "sample_size PNone n = Inr 1"
| "sample_size (PFloat q) n =
     (if 1 < fl q then Inl ValueError
      else Inr (py_round (fl (fl q * fl (of_nat n)))))"
| "sample_size (PInt i) n = (if 1 < i then Inl ValueError else Inr (i * int n))"
| "sample_size (PBool b) n = Inr ((if b then 1 else 0) * int n)"
| "sample_size _ n = Inl TypeError"

text \<open>
  \<^verbatim>\<open>com.random_state\<close>: an integer seeds a new \<^verbatim>\<open>RandomState\<close>, which accepts
  \<open>0 \<le> seed < 2 ^ 32\<close>; \<^verbatim>\<open>None\<close> is the global generator; a bool, float, string,
  list or dictionary is refused.
\<close>

fun random_state :: "pyval \<Rightarrow> error + pyval" where
  "random_state (PInt s) = (if 0 \<le> s \<and> s < 2 ^ 32 then Inr (PInt s) else Inl ValueError)"
| "random_state PNone = Inr PNone"
| "random_state _ = Inl ValueError"

text \<open>
  \<^verbatim>\<open>rs.permutation(n)\<close> is a permutation of \<open>0, ..., n - 1\<close> whatever the generator:
  the model keeps from the environment's list the first occurrence of each index below
  \<open>n\<close> and appends the missing ones, which leaves a permutation as it is.
\<close>

definition permutation_of :: "env \<Rightarrow> pyval \<Rightarrow> nat \<Rightarrow> nat list" where
  "permutation_of E rs n =
     (let p = rev (remdups (rev (filter (\<lambda>i. i < n) (rng_permutation E rs n))))
      in p @ filter (\<lambda>i. i \<notin> set p) [0..<n])"

text \<open>
  The sample: the rows at the first \<open>n\<close> positions of the permutation, with their labels.
  An empty frame is left out (whether numpy accepts \<^verbatim>\<open>choice(0, size=0)\<close> depends on its
  version).
\<close>

definition df_sample :: "env \<Rightarrow> pyval \<Rightarrow> pyval \<Rightarrow> dataframe \<Rightarrow> error + dataframe" where
  "df_sample E fraction seed df =
     bind_err (random_state seed) (\<lambda>rs.
     bind_err (sample_size fraction (length df)) (\<lambda>k.
       if k < 0 then Inl ValueError
       else if df = [] then Inl Unmodelled
       else if int (length df) < k then Inl ValueError
       else Inr (map (\<lambda>i. df ! i) (take (nat k) (permutation_of E rs (length df))))))"

section \<open>\<^verbatim>\<open>single_run\<close>: data preparation (lines 67--142)\<close>

text \<open>
  Lines 87--92: the weak set is split by sampling the given fraction of its rows with
  the random state \<open>seed\<close>; the rows left after dropping the sampled labels are the
  validation frame; both frames are reindexed.
\<close>

definition weak_train_valid_split ::
  "env \<Rightarrow> pyval \<Rightarrow> pyval \<Rightarrow> dataframe \<Rightarrow> error + (dataframe \<times> dataframe)" where
  "weak_train_valid_split E fraction seed weak_df =
     bind_err (df_sample E fraction seed weak_df) (\<lambda>train_weak_df.
     bind_err (df_drop (map fst train_weak_df) weak_df) (\<lambda>valid_weak_df.
     Inr (reset_index train_weak_df, reset_index valid_weak_df)))"

record datasets =
  config_logged :: pyval
  encoder_of :: encoder
  tot_train_data :: "view list"
  train_dataset :: "view list"
  batch_sampler :: "view list \<times> pyval"
  valid_dataset :: "view list"
  test_dataset :: view

text \<open>
  The lookups are made in the order in which Python evaluates them, each time the source
  writes them. \<^verbatim>\<open>ConcatDataset\<close> is the list of its views, the batch sampler the pair of
  the views under its \<^verbatim>\<open>RandomSampler\<close>s and the configured batch sizes.
\<close>

definition data_prep :: "env \<Rightarrow> pyval \<Rightarrow> string \<Rightarrow> error + datasets" where
  "data_prep E config0 log_dir =
     bind_err (dict_update config0 ''log_dir'' (PStr log_dir)) (\<lambda>config.
     bind_err (getitem2 config ''data'' ''audio_max_len'') (\<lambda>e_audio_len.
     bind_err (getitem2 config ''feats'' ''n_filters'') (\<lambda>e_frame_len.
     bind_err (getitem2 config ''feats'' ''hop_length'') (\<lambda>e_frame_hop.
     bind_err (getitem2 config ''data'' ''net_subsample'') (\<lambda>e_net_pooling.
     bind_err (getitem2 config ''data'' ''fs'') (\<lambda>e_fs.
     let encoder = \<lparr>labels = classes_labels E, audio_len = e_audio_len,
           frame_len = e_frame_len, frame_hop = e_frame_hop,
           net_pooling = e_net_pooling, fs = e_fs\<rparr> in
     bind_err (getitem2 config ''data'' ''synth_tsv'') (\<lambda>synth_tsv.
     let synth_df = range_index (read_csv E synth_tsv) in
     bind_err (getitem2 config ''data'' ''synth_folder'') (\<lambda>synth_folder.
     bind_err (getitem2 config ''data'' ''audio_max_len'') (\<lambda>synth_pad.
     let synth_set = \<lparr>kind = StronglyAnnotatedSet, folder = synth_folder,
           frame = Some synth_df, enc = encoder, return_filename = None,
           pad_to = synth_pad\<rparr> in
     bind_err (getitem2 config ''data'' ''weak_tsv'') (\<lambda>weak_tsv.
     let weak_df = range_index (read_csv E weak_tsv) in
     bind_err (getitem2 config ''training'' ''weak_split'') (\<lambda>weak_split.
     bind_err (getitem2 config ''training'' ''seed'') (\<lambda>seed.
     bind_err (weak_train_valid_split E weak_split seed weak_df) (\<lambda>(train_weak_df, valid_weak_df).
     bind_err (getitem2 config ''data'' ''weak_folder'') (\<lambda>weak_folder.
     bind_err (getitem2 config ''data'' ''audio_max_len'') (\<lambda>weak_pad.
     let weak_set = \<lparr>kind = WeakSet, folder = weak_folder,
           frame = Some train_weak_df, enc = encoder, return_filename = None,
           pad_to = weak_pad\<rparr> in
     bind_err (getitem2 config ''data'' ''unlabeled_folder'') (\<lambda>unlabeled_folder.
     bind_err (getitem2 config ''data'' ''audio_max_len'') (\<lambda>unlabeled_pad.
     let unlabeled_set = \<lparr>kind = UnlabelledSet, folder = unlabeled_folder,
           frame = None, enc = encoder, return_filename = None,
           pad_to = unlabeled_pad\<rparr> in
     bind_err (getitem2 config ''data'' ''synth_val_tsv'') (\<lambda>synth_val_tsv.
     let synth_df_val = range_index (read_csv E synth_val_tsv) in
     bind_err (getitem2 config ''data'' ''synth_val_folder'') (\<lambda>synth_val_folder.
     bind_err (getitem2 config ''data'' ''audio_max_len'') (\<lambda>synth_val_pad.
     let synth_val = \<lparr>kind = StronglyAnnotatedSet, folder = synth_val_folder,
           frame = Some synth_df_val, enc = encoder, return_filename = Some True,
           pad_to = synth_val_pad\<rparr> in
     bind_err (getitem2 config ''data'' ''weak_folder'') (\<lambda>weak_val_folder.
     bind_err (getitem2 config ''data'' ''audio_max_len'') (\<lambda>weak_val_pad.
     let weak_val = \<lparr>kind = WeakSet, folder = weak_val_folder,
           frame = Some valid_weak_df, enc = encoder, return_filename = Some True,
           pad_to = weak_val_pad\<rparr> in
     bind_err (getitem2 config ''data'' ''test_tsv'') (\<lambda>test_tsv.
     let devtest_df = range_index (read_csv E test_tsv) in
     bind_err (getitem2 config ''data'' ''test_folder'') (\<lambda>test_folder.
     bind_err (getitem2 config ''data'' ''audio_max_len'') (\<lambda>devtest_pad.
     let devtest_dataset = \<lparr>kind = StronglyAnnotatedSet, folder = test_folder,
           frame = Some devtest_df, enc = encoder, return_filename = Some True,
           pad_to = devtest_pad\<rparr> in
     let tot = [synth_set, weak_set, unlabeled_set] in
     bind_err (getitem2 config ''training'' ''batch_size'') (\<lambda>batch_sizes.
     Inr \<lparr>config_logged = config, encoder_of = encoder, tot_train_data = tot,
          train_dataset = tot, batch_sampler = (tot, batch_sizes),
          valid_dataset = [synth_val, weak_val, devtest_dataset],
          test_dataset = devtest_dataset\<rparr>))))))))))))))))))))))))))"

section \<open>\<^verbatim>\<open>single_run\<close>: the epoch length (lines 144--153)\<close>

text \<open>
  One element of the list comprehension:
  \<^verbatim>\<open>len(tot_train_data[indx]) // (config["training"]["batch_size"][indx] * config["training"]["accumulate_batches"])\<close>.
\<close>

definition epoch_len_item :: "env \<Rightarrow> pyval \<Rightarrow> view list \<Rightarrow> nat \<Rightarrow> error + int" where
  "epoch_len_item E config tot indx =
     bind_err (getitem2 config ''training'' ''batch_size'') (\<lambda>batch_size.
     bind_err (index_item batch_size indx) (\<lambda>b.
     bind_err (getitem2 config ''training'' ''accumulate_batches'') (\<lambda>accumulate_batches.
     bind_err (py_mul b accumulate_batches) (\<lambda>d.
     py_floordiv (int (dataset_len E (tot ! indx))) d))))"

definition epoch_len :: "env \<Rightarrow> pyval \<Rightarrow> view list \<Rightarrow> error + int" where
  "epoch_len E config tot =
     bind_err (sequence_err (map (epoch_len_item E config tot) [0..<length tot])) py_min"


section \<open>\<^verbatim>\<open>single_run\<close>: model, optimizer and scheduler (lines 156--176)\<close>

text \<open>
  The network, the optimizer, the warmup scheduler and the Lightning module are
  collaborators; each is the record of the arguments that the recipe constructs it with.
  \<^verbatim>\<open>CRNN(**config["net"])\<close> needs a mapping. The float literals \<^verbatim>\<open>1e-3\<close>, \<^verbatim>\<open>0.9\<close> and
  \<^verbatim>\<open>0.999\<close> are the rationals they denote.
\<close>

record adam =
  params_of :: "(string \<times> pyval) list"
  lr :: pyval
  betas :: "pyval \<times> pyval"

record exponential_warmup =
  warmup_optimizer :: adam
  warmup_max_lr :: pyval
  warmup_steps :: pyval

record lr_scheduler =
  scheduler :: exponential_warmup
  interval :: string

record sed_task =
  hparams :: pyval
  task_encoder :: encoder
  sed_student :: "(string \<times> pyval) list"
  opt :: adam
  train_data :: "view list"
  valid_data :: "view list"
  test_data :: view
  train_sampler :: "view list \<times> pyval"
  task_scheduler :: lr_scheduler
  task_fast_dev_run :: bool

text \<open>\<^verbatim>\<open>**v\<close>: the keyword arguments that a mapping unpacks to.\<close>

fun unpack_mapping :: "pyval \<Rightarrow> error + (string \<times> pyval) list" where
  "unpack_mapping (PDict kwargs) = Inr kwargs"
| "unpack_mapping _ = Inl TypeError"

definition models_and_optimizers :: "datasets \<Rightarrow> int \<Rightarrow> bool \<Rightarrow> error + sed_task" where
  "models_and_optimizers d el fast_dev_run =
     (let config = config_logged d in
      bind_err (getitem config ''net'') (\<lambda>net.
      bind_err (unpack_mapping net) (\<lambda>student.
      let optimizer = \<lparr>params_of = student, lr = PFloat (1 / 1000),
            betas = (PFloat (9 / 10), PFloat (999 / 1000))\<rparr> in
      bind_err (getitem2 config ''training'' ''n_epochs_warmup'') (\<lambda>n_epochs_warmup.
      bind_err (py_mul n_epochs_warmup (PInt el)) (\<lambda>exp_steps.
      bind_err (getitem2 config ''opt'' ''lr'') (\<lambda>target_lr.
      let exp_scheduler =
            \<lparr>scheduler = \<lparr>warmup_optimizer = optimizer, warmup_max_lr = target_lr,
                 warmup_steps = exp_steps\<rparr>,
             interval = ''step''\<rparr> in
      Inr \<lparr>hparams = config, task_encoder = encoder_of d, sed_student = student,
           opt = optimizer, train_data = train_dataset d, valid_data = valid_dataset d,
           test_data = test_dataset d, train_sampler = batch_sampler d,
           task_scheduler = exp_scheduler, task_fast_dev_run = fast_dev_run\<rparr>))))))"

section \<open>\<^verbatim>\<open>single_run\<close>: logger and trainer (lines 178--221)\<close>

text \<open>\<^verbatim>\<open>p.split("/")[-1]\<close>: what follows the last slash.\<close>

definition last_component :: "string \<Rightarrow> string" where
  "last_component p = rev (takeWhile (\<lambda>c. c \<noteq> CHR ''/'') (rev p))"

text \<open>
  \<^verbatim>\<open>os.path.dirname(p)\<close>: \<open>p\<close> up to its last slash, without the trailing slashes unless
  it consists of slashes only.
\<close>

definition os_path_dirname :: "string \<Rightarrow> string" where
  "os_path_dirname p =
     (let head = take (length p - length (last_component p)) p
      in if head \<noteq> [] \<and> \<not> list_all (\<lambda>c. c = CHR ''/'') head
         then rev (dropWhile (\<lambda>c. c = CHR ''/'') (rev head))
         else head)"

text \<open>The two path operations on a configuration value: only a string has them.\<close>

fun dirname_of :: "pyval \<Rightarrow> error + string" where
  "dirname_of (PStr p) = Inr (os_path_dirname p)"
| "dirname_of _ = Inl TypeError"

fun last_component_of :: "pyval \<Rightarrow> error + string" where
  "last_component_of (PStr p) = Inr (last_component p)"
| "last_component_of _ = Inl AttributeError"

record tensorboard_logger =
  save_dir :: string
  logger_name :: string

record early_stopping =
  es_monitor :: string
  patience :: pyval
  es_verbose :: bool

record model_checkpoint =
  ckpt_dirpath_of :: tensorboard_logger
  ckpt_monitor :: string
  save_top_k :: int

record trainer =
  max_epochs :: pyval
  callbacks :: "early_stopping \<times> model_checkpoint"
  gpus :: pyval
  distributed_backend :: pyval
  accumulate_grad_batches :: pyval
  logger :: tensorboard_logger
  resume_from_checkpoint :: pyval
  gradient_clip_val :: pyval
  check_val_every_n_epoch :: pyval
  num_sanity_val_steps :: pyval
  log_every_n_steps :: pyval
  flush_logs_every_n_steps :: pyval
  limit_train_batches :: pyval
  limit_val_batches :: pyval
  limit_test_batches :: pyval

text \<open>
  \<^verbatim>\<open>config["log_dir"]\<close> is read back from the configuration; \<^verbatim>\<open>n_epochs\<close> is looked up
  only when \<^verbatim>\<open>fast_dev_run\<close> is false (a conditional expression); the integer literal
  \<^verbatim>\<open>2\<close> and the float literal \<^verbatim>\<open>1.\<close> stay apart as \<open>PInt 2\<close> and \<open>PFloat 1\<close>: the
  trainer reads the first as a number of batches and the second as a fraction of the data.
  The checkpoint callback is given \<^verbatim>\<open>logger.log_dir\<close>, a directory that the logger
  computes; it is recorded as the logger it comes from. The \<^verbatim>\<open>print\<close> is left out.
\<close>

definition make_trainer :: "pyval \<Rightarrow> pyval \<Rightarrow> pyval \<Rightarrow> bool \<Rightarrow> error + trainer" where
  "make_trainer config gpus_arg checkpoint_resume fast_dev_run =
     bind_err (getitem config ''log_dir'') (\<lambda>log_dir1.
     bind_err (dirname_of log_dir1) (\<lambda>dir.
     bind_err (getitem config ''log_dir'') (\<lambda>log_dir2.
     bind_err (last_component_of log_dir2) (\<lambda>name.
     let tb = \<lparr>save_dir = dir, logger_name = name\<rparr> in
     bind_err (if \<not> fast_dev_run then getitem2 config ''training'' ''n_epochs''
               else Inr (PInt 3)) (\<lambda>n_epochs.
     let (flush_n, log_n, limit_train, limit_val, limit_test) =
           (if fast_dev_run then (PInt 1, PInt 1, PInt 2, PInt 2, PInt 2)
            else (PInt 100, PInt 40, PFloat 1, PFloat 1, PFloat 1)) in
     bind_err (getitem2 config ''training'' ''early_stop_patience'') (\<lambda>early_stop_patience.
     bind_err (getitem config ''training'') (\<lambda>training.
     bind_err (dict_get training ''backend'') (\<lambda>backend.
     bind_err (getitem2 config ''training'' ''accumulate_batches'') (\<lambda>accumulate_batches.
     bind_err (getitem2 config ''training'' ''gradient_clip'') (\<lambda>gradient_clip.
     bind_err (getitem2 config ''training'' ''validation_interval'') (\<lambda>validation_interval.
     Inr \<lparr>max_epochs = n_epochs,
          callbacks =
            (\<lparr>es_monitor = ''val/obj_metric'', patience = early_stop_patience,
              es_verbose = True\<rparr>,
             \<lparr>ckpt_dirpath_of = tb, ckpt_monitor = ''val/obj_metric'', save_top_k = 1\<rparr>),
          gpus = gpus_arg,
          distributed_backend = backend,
          accumulate_grad_batches = accumulate_batches,
          logger = tb,
          resume_from_checkpoint = checkpoint_resume,
          gradient_clip_val = gradient_clip,
          check_val_every_n_epoch = validation_interval,
          num_sanity_val_steps = PInt 0,
          log_every_n_steps = log_n,
          flush_logs_every_n_steps = flush_n,
          limit_train_batches = limit_train,
          limit_val_batches = limit_val,
          limit_test_batches = limit_test\<rparr>)))))))))))"

section \<open>\<^verbatim>\<open>single_run\<close>: fit or load, then test (lines 223--228)\<close>

text \<open>
  The calls that act on the outside world, in the order in which the program makes them.
  A call is taken to return: what Lightning, torch and the helper modules do inside is
  not part of the recipe. The seeding calls of the entry point are the exception: they
  are handed a configuration value unchecked and may refuse it.
\<close>

datatype event =
    TorchManualSeed pyval
  | NpRandomSeed pyval
  | RandomSeed pyval
  | PlSeedEverything pyval
  | ResampleFolder pyval pyval pyval
  | GenerateTsvWavDurations pyval pyval
  | TrainerFit
  | LoadStateDict pyval
  | TrainerTest string

definition run_phases :: "pyval \<Rightarrow> event list" where
  "run_phases test_state_dict =
     (if test_state_dict = PNone then [TrainerFit] else [LoadStateDict test_state_dict])
     @ [TrainerTest ''best'']"

record run =
  desed_training :: sed_task
  run_trainer :: trainer
  run_epoch_len :: int
  phases :: "event list"

text \<open>
  Every exception of \<^verbatim>\<open>single_run\<close>'s own lines comes before the first of these calls,
  so the result is either the exception or the objects built and the calls made.
\<close>

definition single_run ::
  "env \<Rightarrow> pyval \<Rightarrow> string \<Rightarrow> pyval \<Rightarrow> pyval \<Rightarrow> pyval \<Rightarrow> bool \<Rightarrow> error + run" where
  "single_run E config log_dir gpus_arg checkpoint_resume test_state_dict fast_dev_run =
     bind_err (data_prep E config log_dir) (\<lambda>d.
     bind_err (epoch_len E (config_logged d) (tot_train_data d)) (\<lambda>el.
     bind_err (models_and_optimizers d el fast_dev_run) (\<lambda>task.
     bind_err (make_trainer (config_logged d) gpus_arg checkpoint_resume fast_dev_run) (\<lambda>tr.
     Inr \<lparr>desed_training = task, run_trainer = tr, run_epoch_len = el,
          phases = run_phases test_state_dict\<rparr>))))"


section \<open>\<^verbatim>\<open>resample_data_generate_durations\<close> (lines 26--43)\<close>

text \<open>
  The first loop: for each data set, the three lookups in the order of the call's
  arguments, then \<^verbatim>\<open>resample_folder\<close>, whose result is assigned to \<^verbatim>\<open>computed\<close>.
  The variable is unbound (\<open>None\<close>) before the first assignment. The result is the
  calls made and either the exception or the final value of \<^verbatim>\<open>computed\<close>.
\<close>

fun resample_loop ::
  "env \<Rightarrow> pyval \<Rightarrow> string list \<Rightarrow> bool option \<Rightarrow> event list \<times> (error + bool option)" where
  "resample_loop E config_data [] computed = ([], Inr computed)"
| "resample_loop E config_data (dset # dsets) computed =
     (case getitem config_data (dset @ ''_44k'') of
        Inl e \<Rightarrow> ([], Inl e)
      | Inr source \<Rightarrow>
     (case getitem config_data dset of
        Inl e \<Rightarrow> ([], Inl e)
      | Inr target \<Rightarrow>
     (case getitem config_data ''fs'' of
        Inl e \<Rightarrow> ([], Inl e)
      | Inr target_fs \<Rightarrow>
          (let (evs, r) =
                 resample_loop E config_data dsets
                   (Some (resample_folder E source target target_fs))
           in (ResampleFolder source target target_fs # evs, r)))))"

text \<open>
  The second loop, over the sets that have a duration file. \<open>ex\<close> tells which paths
  exist; \<^verbatim>\<open>not os.path.exists(...) or computed\<close> reads \<^verbatim>\<open>computed\<close> only when the file
  exists.

  Modelled from the spec: \<^verbatim>\<open>local.utils.generate_tsv_wav_durations\<close> is not among the
  sources; the spec says that it regenerates the duration TSV, so its output path
  exists after the call.
\<close>

fun durations_loop ::
  "pyval \<Rightarrow> bool option \<Rightarrow> string list \<Rightarrow> (pyval \<Rightarrow> bool) \<Rightarrow> event list \<times> (error + unit)" where
  "durations_loop config_data computed [] ex = ([], Inr ())"
| "durations_loop config_data computed (base_set # base_sets) ex =
     (case getitem config_data (base_set @ ''_dur'') of
        Inl e \<Rightarrow> ([], Inl e)
      | Inr dur \<Rightarrow>
          if ex dur \<and> computed = None then ([], Inl UnboundLocalError)
          else if \<not> ex dur \<or> computed = Some True then
            (case getitem config_data (base_set @ ''_folder'') of
               Inl e \<Rightarrow> ([], Inl e)
             | Inr audio_folder \<Rightarrow>
            (case getitem config_data (base_set @ ''_dur'') of
               Inl e \<Rightarrow> ([], Inl e)
             | Inr out_tsv \<Rightarrow>
                 (let (evs, r) =
                        durations_loop config_data computed base_sets (ex(out_tsv := True))
                  in (GenerateTsvWavDurations audio_folder out_tsv # evs, r))))
          else durations_loop config_data computed base_sets ex)"

definition dsets :: "string list" where
  "dsets = [''synth_folder'', ''synth_val_folder'', ''weak_folder'', ''unlabeled_folder'',
            ''test_folder'']"

definition resample_data_generate_durations ::
  "env \<Rightarrow> pyval \<Rightarrow> event list \<times> (error + unit)" where
  "resample_data_generate_durations E config_data =
     (case resample_loop E config_data dsets None of
        (evs1, Inl e) \<Rightarrow> (evs1, Inl e)
      | (evs1, Inr computed) \<Rightarrow>
          (let (evs2, r) =
                 durations_loop config_data computed [''synth_val'', ''test''] (path_exists E)
           in (evs1 @ evs2, r)))"

section \<open>The entry point (lines 231--272)\<close>

record args =
  conf_file :: string
  log_dir :: string
  arg_resume_from_checkpoint :: "string option"
  test_from_checkpoint :: "string option"
  arg_gpus :: string
  arg_fast_dev_run :: bool

text \<open>
  Lines 241--255: the configuration in force and the state dictionary to test. With
  \<^verbatim>\<open>--test_from_checkpoint\<close> the right-hand side \<^verbatim>\<open>configs["data"]\<close> is evaluated
  before the assignment into the checkpoint's \<^verbatim>\<open>hyper_parameters\<close>, and the
  \<^verbatim>\<open>print\<close> reads \<^verbatim>\<open>checkpoint['epoch']\<close>.
\<close>

definition load_configs :: "env \<Rightarrow> args \<Rightarrow> error + (pyval \<times> pyval)" where
  "load_configs E a =
     (let configs = yaml_safe_load E (conf_file a) in
      case test_from_checkpoint a of
        None \<Rightarrow> Inr (configs, PNone)
      | Some path \<Rightarrow>
          (let checkpoint = torch_load E path in
           bind_err (getitem checkpoint ''hyper_parameters'') (\<lambda>configs_ckpt.
           bind_err (getitem configs ''data'') (\<lambda>data.
           bind_err (setitem configs_ckpt ''data'' data) (\<lambda>configs'.
           bind_err (getitem checkpoint ''epoch'') (\<lambda>epoch.
           bind_err (getitem checkpoint ''state_dict'') (\<lambda>test_model_state_dict.
           Inr (configs', test_model_state_dict))))))))"

text \<open>
  Lines 258--262: when the seed is true, the four global generators are seeded, in the
  order torch, numpy, random, lightning. Each call is given the seed as it stands in the
  configuration; a call that rejects it (the environment tells which: the seed and the
  position of the call) raises, and the program ends there.
\<close>

fun seed_calls :: "env \<Rightarrow> pyval \<Rightarrow> (nat \<times> event) list \<Rightarrow> event list \<times> (error + unit)" where
  "seed_calls E seed [] = ([], Inr ())"
| "seed_calls E seed ((i, c) # cs) =
     (case seed_raises E seed i of
        Some e \<Rightarrow> ([c], Inl e)
      | None \<Rightarrow> (let (evs, r) = seed_calls E seed cs in (c # evs, r)))"

definition seed_everything :: "env \<Rightarrow> pyval \<Rightarrow> event list \<times> (error + unit)" where
  "seed_everything E seed =
     (if truthy seed
      then seed_calls E seed
             [(0, TorchManualSeed seed), (1, NpRandomSeed seed), (2, RandomSeed seed),
              (3, PlSeedEverything seed)]
      else ([], Inr ()))"

definition opt_str :: "string option \<Rightarrow> pyval" where
  "opt_str x = (case x of None \<Rightarrow> PNone | Some s \<Rightarrow> PStr s)"

text \<open>
  The whole program: the calls made, in order, and either the exception that ended the
  program or what \<^verbatim>\<open>single_run\<close> built.
\<close>

definition main :: "env \<Rightarrow> args \<Rightarrow> event list \<times> (error + run)" where
  "main E a =
     (case load_configs E a of
        Inl e \<Rightarrow> ([], Inl e)
      | Inr (configs, test_model_state_dict) \<Rightarrow>
     (case getitem2 configs ''training'' ''seed'' of
        Inl e \<Rightarrow> ([], Inl e)
      | Inr seed \<Rightarrow>
     (case seed_everything E seed of
        (evs0, Inl e) \<Rightarrow> (evs0, Inl e)
      | (evs0, Inr u0) \<Rightarrow>
     (case getitem configs ''data'' of
        Inl e \<Rightarrow> (evs0, Inl e)
      | Inr config_data \<Rightarrow>
     (case resample_data_generate_durations E config_data of
        (evs1, Inl e) \<Rightarrow> (evs0 @ evs1, Inl e)
      | (evs1, Inr u) \<Rightarrow>
     (case single_run E configs (log_dir a) (PStr (arg_gpus a))
             (opt_str (arg_resume_from_checkpoint a)) test_model_state_dict
             (arg_fast_dev_run a) of
        Inl e \<Rightarrow> (evs0 @ evs1, Inl e)
      | Inr r \<Rightarrow> (evs0 @ evs1 @ phases r, Inr r)))))))"

section \<open>The calls that seed a global random number generator\<close>

fun is_seeding :: "event \<Rightarrow> bool" where
  "is_seeding (TorchManualSeed s) = True"
| "is_seeding (NpRandomSeed s) = True"
| "is_seeding (RandomSeed s) = True"
| "is_seeding (PlSeedEverything s) = True"
| "is_seeding _ = False"

section \<open>The epoch length as the specification words it\<close>

text \<open>
  The minimum over the subsets of \<open>floor (size / (batch_size * accumulate_batches))\<close>, the
  quotient taken in the rationals.
\<close>

definition spec_epoch_len :: "nat list \<Rightarrow> int list \<Rightarrow> int \<Rightarrow> int" where
  "spec_epoch_len sizes batch acc =
     Min ((\<lambda>i. \<lfloor>(of_nat (sizes ! i) :: rat) / of_int (batch ! i * acc)\<rfloor>) ` {0..<length sizes})"


section \<open>An example environment and configuration\<close>

text \<open>
  A configuration with the keys that the recipe reads, a weak set of 100 rows, a
  generator whose permutation rotates the positions by the seed, and a numpy that
  refuses a seed outside \<open>0 \<le> seed < 2 ^ 32\<close>. They serve to run the definitions above on
  concrete inputs.
\<close>

definition example_data :: "string \<Rightarrow> pyval" where
  "example_data basedir = PDict
     [(''synth_folder'', PStr (basedir @ ''/synth/train_16k'')),
      (''synth_folder_44k'', PStr (basedir @ ''/synth/train'')),
      (''synth_tsv'', PStr (basedir @ ''/synth/train.tsv'')),
      (''synth_val_folder'', PStr (basedir @ ''/synth/val_16k'')),
      (''synth_val_folder_44k'', PStr (basedir @ ''/synth/val'')),
      (''synth_val_tsv'', PStr (basedir @ ''/synth/val.tsv'')),
      (''synth_val_dur'', PStr (basedir @ ''/synth/val_durations.tsv'')),
      (''weak_folder'', PStr (basedir @ ''/weak_16k'')),
      (''weak_folder_44k'', PStr (basedir @ ''/weak'')),
      (''weak_tsv'', PStr (basedir @ ''/weak.tsv'')),
      (''unlabeled_folder'', PStr (basedir @ ''/unlabel_16k'')),
      (''unlabeled_folder_44k'', PStr (basedir @ ''/unlabel'')),
      (''test_folder'', PStr (basedir @ ''/test_16k'')),
      (''test_folder_44k'', PStr (basedir @ ''/test'')),
      (''test_tsv'', PStr (basedir @ ''/test.tsv'')),
      (''test_dur'', PStr (basedir @ ''/test_durations.tsv'')),
      (''audio_max_len'', PInt 10),
      (''fs'', PInt 16000),
      (''net_subsample'', PInt 4)]"

definition example_config :: "string \<Rightarrow> pyval \<Rightarrow> pyval \<Rightarrow> pyval" where
  "example_config basedir batch seed = PDict
     [(''training'', PDict
         [(''batch_size'', batch),
          (''accumulate_batches'', PInt 1),
          (''n_epochs'', PInt 200),
          (''n_epochs_warmup'', PInt 50),
          (''weak_split'', PFloat (9 / 10)),
          (''seed'', seed),
          (''early_stop_patience'', PInt 200),
          (''gradient_clip'', PFloat 0),
          (''validation_interval'', PInt 1)]),
      (''opt'', PDict [(''lr'', PFloat (1 / 1000))]),
      (''feats'', PDict [(''n_filters'', PInt 2048), (''hop_length'', PInt 256)]),
      (''net'', PDict [(''dropout'', PFloat (1 / 2)), (''n_in_channel'', PInt 1)]),
      (''data'', example_data basedir)]"

definition example_rows :: "nat \<Rightarrow> row list" where
  "example_rows n = map (\<lambda>i. [replicate (Suc i) (CHR ''a'') @ ''.wav'', ''Speech'']) [0..<n]"

definition example_env :: "(pyval \<Rightarrow> pyval \<Rightarrow> pyval \<Rightarrow> bool) \<Rightarrow> env" where
  "example_env resampled =
     \<lparr>classes_labels = [''Alarm_bell_ringing'', ''Speech''],
      read_csv = (\<lambda>p. if p = PStr ''data/weak.tsv'' then example_rows 100 else example_rows 3),
      rng_permutation = (\<lambda>rs n. case rs of PInt s \<Rightarrow> rotate (nat (s mod int n)) [0..<n]
                                    | _ \<Rightarrow> [0..<n]),
      dataset_len = (\<lambda>v. case kind v of StronglyAnnotatedSet \<Rightarrow> 120 | WeakSet \<Rightarrow> 90
                         | UnlabelledSet \<Rightarrow> 240),
      yaml_safe_load = (\<lambda>p. example_config ''data'' (PList [PInt 12, PInt 12, PInt 24])
                              (if p = ''./confs/seed0.yaml'' then PInt 0 else PInt 42)),
      torch_load = (\<lambda>p. PDict
         [(''epoch'', PInt 57),
          (''state_dict'', PDict [(''sed_student.dense.bias'', PList [PFloat 0])]),
          (''hyper_parameters'',
             example_config ''old_data'' (PList [PInt 24, PInt 24, PInt 48]) (PInt 7))]),
      resample_folder = resampled,
      path_exists = (\<lambda>p. True),
      seed_raises = (\<lambda>seed i. if i = 1
                                then (case seed of
                                        PInt s \<Rightarrow> if 0 \<le> s \<and> s < 2 ^ 32 then None
                                                  else Some ValueError
                                      | _ \<Rightarrow> Some TypeError)
                                else None)\<rparr>"

definition example_args :: "string \<Rightarrow> string option \<Rightarrow> args" where
  "example_args conf checkpoint =
     \<lparr>conf_file = conf, log_dir = ''./exp/2021_baseline'',
      arg_resume_from_checkpoint = None, test_from_checkpoint = checkpoint,
      arg_gpus = ''0'', arg_fast_dev_run = False\<rparr>"

section \<open>Auxiliary facts\<close>

lemma bind_err_Inr [simp]: "bind_err (Inr a) f = f a"
  by (simp add: bind_err_def)

lemma bind_err_Inl [simp]: "bind_err (Inl e) f = Inl e"
  by (simp add: bind_err_def)

lemma bind_err_eq_Inr: "bind_err m f = Inr r \<longleftrightarrow> (\<exists>a. m = Inr a \<and> f a = Inr r)"
  by (cases m) simp_all

lemma getitem_dict_update:
  "dict_update config k x = Inr config' \<Longrightarrow> k' \<noteq> k \<Longrightarrow> getitem config' k' = getitem config k'"
  by (cases config) (auto simp: update_conv')

lemma getitem2_dict_update:
  "dict_update config k x = Inr config' \<Longrightarrow> a \<noteq> k \<Longrightarrow> getitem2 config' a b = getitem2 config a b"
  by (simp add: getitem2_def getitem_dict_update)

lemma data_prep_config:
  assumes "data_prep E config ld = Inr d"
  shows "dict_update config ''log_dir'' (PStr ld) = Inr (config_logged d)"
  using assms unfolding data_prep_def
  by (auto simp: bind_err_eq_Inr Let_def split: prod.splits)

lemma floor_ratio: "\<lfloor>(of_nat s :: rat) / of_int k\<rfloor> = int s div k"
  using floor_divide_of_int_eq[of "int s" k, where ?'a = rat] by simp

lemma spec_epoch_len_3:
  "spec_epoch_len [s0, s1, s2] [b0, b1, b2] a =
     min (int s0 div (b0 * a)) (min (int s1 div (b1 * a)) (int s2 div (b2 * a)))"
proof -
  have "{0..<length [s0, s1, s2]} = {0, 1, 2}" by auto
  then show ?thesis
    unfolding spec_epoch_len_def
    by (simp add: floor_ratio of_int_mult[symmetric] del: of_int_mult)
qed

lemma epoch_len_item_ints:
  assumes "getitem2 config ''training'' ''batch_size'' = Inr (PList bs)"
      and "getitem2 config ''training'' ''accumulate_batches'' = Inr (PInt a)"
      and "i < length bs" and "bs ! i = PInt b"
  shows "epoch_len_item E config tot i =
           (if b * a = 0 then Inl ZeroDivisionError
            else Inr (int (dataset_len E (tot ! i)) div (b * a)))"
  using assms by (simp add: epoch_len_item_def)

lemma epoch_len_three:
  assumes "getitem2 config ''training'' ''batch_size'' = Inr (PList (PInt b0 # PInt b1 # PInt b2 # rest))"
      and "getitem2 config ''training'' ''accumulate_batches'' = Inr (PInt a)"
  shows "epoch_len E config [v0, v1, v2] =
           (if b0 * a = 0 \<or> b1 * a = 0 \<or> b2 * a = 0 then Inl ZeroDivisionError
            else Inr (spec_epoch_len (map (dataset_len E) [v0, v1, v2]) [b0, b1, b2] a))"
proof -
  have u: "[0..<length [v0, v1, v2]] = [0, 1, 2]" by (simp add: upt_rec)
  show ?thesis
    unfolding epoch_len_def u
    by (simp add: epoch_len_item_ints[OF assms] spec_epoch_len_3 min.commute min.left_commute)
qed

lemma length_range_index [simp]: "length (range_index rows) = length rows"
  by (simp add: range_index_def)

lemma length_reset_index [simp]: "length (reset_index df) = length df"
  by (simp add: reset_index_def)

lemma length_example_rows [simp]: "length (example_rows n) = n"
  by (simp add: example_rows_def)

lemma map_fst_range_index [simp]: "map fst (range_index rows) = [0..<length rows]"
  by (simp add: range_index_def)

lemma map_snd_range_index [simp]: "map snd (range_index rows) = rows"
  by (simp add: range_index_def)

lemma df_drop_present:
  assumes "set ls \<subseteq> set (map fst df)"
  shows "df_drop ls df = Inr (filter (\<lambda>p. fst p \<notin> set ls) df)"
  using assms by (auto simp: df_drop_def list_all_iff)

lemma permutation_of_perm:
  "distinct (permutation_of E rs n)" "set (permutation_of E rs n) = {0..<n}"
  "length (permutation_of E rs n) = n"
proof -
  let ?p = "rev (remdups (rev (filter (\<lambda>i. i < n) (rng_permutation E rs n))))"
  have d: "distinct (?p @ filter (\<lambda>i. i \<notin> set ?p) [0..<n])"
    by auto
  have s: "set (?p @ filter (\<lambda>i. i \<notin> set ?p) [0..<n]) = {0..<n}"
    by auto
  show "distinct (permutation_of E rs n)" "set (permutation_of E rs n) = {0..<n}"
    using d s by (simp_all only: permutation_of_def Let_def)
  then show "length (permutation_of E rs n) = n"
    using distinct_card[of "permutation_of E rs n"] by simp
qed

lemma permutation_of_id:
  assumes "distinct (rng_permutation E rs n)" "set (rng_permutation E rs n) = {0..<n}"
  shows "permutation_of E rs n = rng_permutation E rs n"
proof -
  let ?xs = "rng_permutation E rs n"
  have f: "filter (\<lambda>i. i < n) ?xs = ?xs" using assms(2) by (auto intro: filter_True)
  have r: "rev (remdups (rev ?xs)) = ?xs" using assms(1) by (simp add: distinct_remdups_id)
  have "filter (\<lambda>i. i \<notin> set ?xs) [0..<n] = []" using assms(2) by (auto simp: filter_empty_conv)
  then show ?thesis
    by (simp add: permutation_of_def Let_def f r)
qed

lemma range_index_nth: "i < length rows \<Longrightarrow> range_index rows ! i = (i, rows ! i)"
  by (simp add: range_index_def)

lemma sample_positions:
  assumes k: "0 \<le> k" "k \<le> int (length rows)"
  shows "distinct (take (nat k) (permutation_of E rs (length rows)))"
    and "set (take (nat k) (permutation_of E rs (length rows))) \<subseteq> {0..<length rows}"
    and "length (take (nat k) (permutation_of E rs (length rows))) = nat k"
    and "map fst (map (\<lambda>i. range_index rows ! i) (take (nat k) (permutation_of E rs (length rows))))
           = take (nat k) (permutation_of E rs (length rows))"
    and "set (map (\<lambda>i. range_index rows ! i) (take (nat k) (permutation_of E rs (length rows))))
           \<subseteq> set (range_index rows)"
    and "map snd (map (\<lambda>i. range_index rows ! i) (take (nat k) (permutation_of E rs (length rows))))
           = map (\<lambda>i. rows ! i) (take (nat k) (permutation_of E rs (length rows)))"
proof -
  let ?n = "length rows"
  let ?locs = "take (nat k) (permutation_of E rs ?n)"
  show d: "distinct ?locs" by (simp add: permutation_of_perm)
  show s: "set ?locs \<subseteq> {0..<?n}"
    using permutation_of_perm(2)[of E rs ?n] by (auto dest: in_set_takeD)
  show "length ?locs = nat k" using k by (simp add: permutation_of_perm)
  have lt: "\<And>i. i \<in> set ?locs \<Longrightarrow> i < ?n" using s by auto
  show "map fst (map (\<lambda>i. range_index rows ! i) ?locs) = ?locs"
    using lt by (simp add: range_index_nth map_idI)
  show "set (map (\<lambda>i. range_index rows ! i) ?locs) \<subseteq> set (range_index rows)"
    using lt by auto
  show "map snd (map (\<lambda>i. range_index rows ! i) ?locs) = map (\<lambda>i. rows ! i) ?locs"
    using lt by (simp add: range_index_nth)
qed

lemma df_sample_returns:
  assumes rs: "random_state seed = Inr rs"
      and sz: "sample_size fraction (length rows) = Inr k"
      and k: "0 \<le> k" "k \<le> int (length rows)"
      and ne: "rows \<noteq> []"
  shows "df_sample E fraction seed (range_index rows) =
           Inr (map (\<lambda>i. range_index rows ! i) (take (nat k) (permutation_of E rs (length rows))))"
proof -
  have "range_index rows \<noteq> []" using ne by (simp add: range_index_def)
  then show ?thesis
    using k by (simp add: df_sample_def rs sz)
qed

lemma df_sample_InrD:
  assumes "df_sample E fraction seed (range_index rows) = Inr S"
  shows "\<exists>rs k. random_state seed = Inr rs \<and> sample_size fraction (length rows) = Inr k
           \<and> 0 \<le> k \<and> k \<le> int (length rows) \<and> rows \<noteq> []
           \<and> S = map (\<lambda>i. range_index rows ! i) (take (nat k) (permutation_of E rs (length rows)))"
  using assms unfolding df_sample_def
  by (auto simp: bind_err_eq_Inr range_index_def split: if_splits)

lemma example_permutation:
  "permutation_of (example_env rsf) (PInt s) n = rotate (nat (s mod int n)) [0..<n]"
  by (rule trans[OF permutation_of_id]) (simp_all add: example_env_def)

lemma fl_nine_tenths: "fl (9 / 10) = 8106479329266893 / 9007199254740992"
  by code_simp

lemma example_sample_size: "sample_size (PFloat (9 / 10)) 100 = Inr 90"
  by code_simp

lemma python_rounding:
  "py_round (5 / 2) = 2" "py_round (7 / 2) = 4" "py_round (fl (fl (7 / 100) * fl 150)) = 11"
  by code_simp+

lemma py_round_nonneg: "0 \<le> x \<Longrightarrow> 0 \<le> py_round x"
proof -
  assume "0 \<le> x"
  then have "0 \<le> \<lfloor>x\<rfloor>" by simp
  then show ?thesis by (simp add: py_round_def Let_def)
qed

lemma py_round_le_int: "x \<le> of_int j \<Longrightarrow> py_round x \<le> j"
proof -
  assume x: "x \<le> of_int j"
  then have f: "\<lfloor>x\<rfloor> \<le> j" by (simp add: floor_le_iff)
  show ?thesis
  proof (cases "\<lfloor>x\<rfloor> = j")
    case True
    then have "of_int j \<le> x" by (metis of_int_floor_le)
    with x have "x = of_int j" by simp
    then show ?thesis by (simp add: py_round_def Let_def)
  next
    case False
    with f have "\<lfloor>x\<rfloor> + 1 \<le> j" by simp
    with f show ?thesis by (simp add: py_round_def Let_def)
  qed
qed

lemma py_round_of_int [simp]: "py_round (of_int j) = j"
  by (simp add: py_round_def Let_def)

lemma fl_nonneg: "0 \<le> x \<Longrightarrow> 0 \<le> fl x"
proof -
  assume x: "0 \<le> x"
  have "0 \<le> py_round (x / 2 powi e)" for e
    using x by (intro py_round_nonneg) simp
  then show ?thesis by (simp add: fl_def Let_def)
qed

lemma ilog2_le:
  assumes "0 < x"
  shows "2 powi (ilog2 x) \<le> x"
proof -
  obtain a b where ab: "quotient_of x = (a, b)" by (cases "quotient_of x")
  then have b: "0 < b" by (rule quotient_of_denom_pos)
  have x: "x = of_int a / of_int b" using ab by (rule quotient_of_div)
  have a: "0 < a" using assms b unfolding x by (simp add: zero_less_divide_iff)
  let ?d = "bitlen a - bitlen b"
  show ?thesis
  proof (cases "2 powi ?d \<le> x")
    case True
    then show ?thesis by (simp add: ilog2_def ab)
  next
    case False
    then have il: "ilog2 x = ?d - 1" by (simp add: ilog2_def ab)
    have la: "1 \<le> bitlen a" and lb: "1 \<le> bitlen b"
      using a b by (simp_all add: bitlen_alt_def)
    from bitlen_bounds[OF a] have "(2::int) ^ nat (bitlen a - 1) \<le> a" by simp
    then have "(of_int ((2::int) ^ nat (bitlen a - 1)) :: rat) \<le> of_int a"
      by (simp only: of_int_le_iff)
    then have A: "(2::rat) powi (bitlen a - 1) \<le> of_int a"
      using la by (simp add: power_int_def)
    from bitlen_bounds[OF b] have "b < (2::int) ^ nat (bitlen b)" by simp
    then have "(of_int b :: rat) < of_int ((2::int) ^ nat (bitlen b))"
      by (simp only: of_int_less_iff)
    then have B: "(of_int b :: rat) \<le> 2 powi (bitlen b)"
      using lb by (simp add: power_int_def)
    have "?d - 1 = (bitlen a - 1) - bitlen b" by simp
    then have "(2::rat) powi (?d - 1) = 2 powi ((bitlen a - 1) - bitlen b)" by (simp only:)
    also have "\<dots> = 2 powi (bitlen a - 1) / 2 powi (bitlen b)"
      by (rule power_int_diff) simp
    also have "\<dots> \<le> of_int a / 2 powi (bitlen b)"
      using A by (simp add: divide_right_mono)
    also have "\<dots> \<le> of_int a / of_int b"
      using B a b by (simp add: frac_le)
    finally have "(2::rat) powi (?d - 1) \<le> x" unfolding x .
    then show ?thesis by (simp only: il)
  qed
qed

lemma quantum_exponent_nonpos:
  assumes "0 < x" "x < 2 ^ 53"
  shows "max (ilog2 x - 52) (- 1074) \<le> 0"
proof -
  have "(2::rat) powi (ilog2 x) < 2 powi 53"
    using ilog2_le[OF assms(1)] assms(2) by simp
  then have "ilog2 x < 53"
    by (rule power_int_le_imp_less_exp[rotated]) simp_all
  then show ?thesis by simp
qed

lemma fl_le_int:
  assumes j: "0 \<le> j" "j < 2 ^ 53" and x: "x \<le> of_int j"
  shows "fl x \<le> of_int j"
proof (cases "x \<le> 0")
  case True
  have "py_round (x / 2 powi e) \<le> 0" for e
    using True by (intro py_round_le_int) (simp add: divide_le_0_iff)
  then have "fl x \<le> 0"
    by (simp add: fl_def Let_def mult_le_0_iff)
  with j show ?thesis by (meson of_int_0_le_iff order_trans)
next
  case False
  then have pos: "0 < x" by simp
  have "x < 2 ^ 53"
  proof -
    have "(of_int j :: rat) < of_int (2 ^ 53)" using j(2) by (simp only: of_int_less_iff)
    with x show ?thesis by simp
  qed
  with pos have e: "max (ilog2 x - 52) (- 1074) \<le> 0" by (rule quantum_exponent_nonpos)
  define e where "e = max (ilog2 x - 52) (- 1074)"
  have e0: "e \<le> 0" using e by (simp add: e_def)
  have inv: "(1::rat) / 2 powi e = of_int (2 ^ nat (- e))"
    using e0 by (simp add: power_int_def field_simps)
  have "x / 2 powi e \<le> of_int j / 2 powi e"
    using x by (simp add: divide_right_mono)
  also have "\<dots> = of_int (j * 2 ^ nat (- e))"
    using inv by (simp add: field_simps)
  finally have "py_round (x / 2 powi e) \<le> j * 2 ^ nat (- e)"
    by (rule py_round_le_int)
  then have "(of_int (py_round (x / 2 powi e)) :: rat) \<le> of_int (j * 2 ^ nat (- e))"
    by (simp only: of_int_le_iff)
  then have "(of_int (py_round (x / 2 powi e)) :: rat) * 2 powi e \<le> of_int (j * 2 ^ nat (- e)) * 2 powi e"
    by (rule mult_right_mono) simp
  also have "\<dots> = of_int j"
    using e0 by (simp add: power_int_def field_simps)
  finally show ?thesis
    using pos by (simp add: fl_def Let_def e_def)
qed

lemma fl_of_nat:
  assumes "n < 2 ^ 53"
  shows "fl (of_nat n) = of_nat n"
proof (cases "n = 0")
  case True
  then show ?thesis by (simp add: fl_def)
next
  case False
  then have pos: "0 < (of_nat n :: rat)" by simp
  have "(of_nat n :: rat) < of_nat (2 ^ 53)" using assms by (simp only: of_nat_less_iff)
  then have "(of_nat n :: rat) < 2 ^ 53" by simp
  with pos have e: "max (ilog2 (of_nat n) - 52) (- 1074) \<le> 0" by (rule quantum_exponent_nonpos)
  define e where "e = max (ilog2 (of_nat n) - 52) (- 1074)"
  have e0: "e \<le> 0" using e by (simp add: e_def)
  have "(of_nat n :: rat) / 2 powi e = of_int (int n * 2 ^ nat (- e))"
    using e0 by (simp add: power_int_def field_simps)
  then have "py_round ((of_nat n :: rat) / 2 powi e) = int n * 2 ^ nat (- e)"
    by (simp only: py_round_of_int)
  then have "of_int (py_round ((of_nat n :: rat) / 2 powi e)) * 2 powi e = (of_nat n :: rat)"
    using e0 by (simp add: power_int_def field_simps)
  then show ?thesis
    using False by (simp add: fl_def Let_def e_def)
qed

lemma sample_size_fraction:
  assumes q: "0 \<le> q" "q \<le> 1" and n: "n < 2 ^ 53"
  shows "sample_size (PFloat q) n = Inr (py_round (fl (fl q * of_nat n)))"
    and "0 \<le> py_round (fl (fl q * of_nat n))"
    and "py_round (fl (fl q * of_nat n)) \<le> int n"
proof -
  have q1: "fl q \<le> 1" using fl_le_int[of 1 q] q(2) by simp
  have q0: "0 \<le> fl q" using q(1) by (rule fl_nonneg)
  show "sample_size (PFloat q) n = Inr (py_round (fl (fl q * of_nat n)))"
    using q1 by (simp add: fl_of_nat[OF n])
  show "0 \<le> py_round (fl (fl q * of_nat n))"
    using q0 by (intro py_round_nonneg fl_nonneg) simp
  have "fl q * of_nat n \<le> 1 * of_nat n"
    using q1 by (rule mult_right_mono) simp
  then have "fl q * of_nat n \<le> of_int (int n)" by simp
  then have "fl (fl q * of_nat n) \<le> of_int (int n)"
    using n by (intro fl_le_int) simp_all
  then show "py_round (fl (fl q * of_nat n)) \<le> int n"
    by (rule py_round_le_int)
qed

lemma example_count: "py_round (fl (fl (9 / 10) * 100)) = 90"
  by code_simp

lemma weak_split_returns:
  assumes rs: "random_state seed = Inr rs"
      and sz: "sample_size fraction (length rows) = Inr k"
      and k: "0 \<le> k" "k \<le> int (length rows)"
      and ne: "rows \<noteq> []"
  shows "weak_train_valid_split E fraction seed (range_index rows) =
           Inr (reset_index (map (\<lambda>i. range_index rows ! i)
                  (take (nat k) (permutation_of E rs (length rows)))),
                reset_index (filter (\<lambda>p. fst p \<notin> set (take (nat k) (permutation_of E rs (length rows))))
                  (range_index rows)))"
proof -
  let ?locs = "take (nat k) (permutation_of E rs (length rows))"
  let ?S = "map (\<lambda>i. range_index rows ! i) ?locs"
  note sp = sample_positions[OF k, of E rs]
  have S: "df_sample E fraction seed (range_index rows) = Inr ?S"
    by (rule df_sample_returns[OF rs sz k ne])
  have "set ?locs \<subseteq> set (map fst (range_index rows))"
    using sp(2) by simp
  from df_drop_present[OF this] show ?thesis
    unfolding weak_train_valid_split_def by (simp only: S bind_err_Inr sp(4))
qed

lemma example_split:
  assumes "0 \<le> s" "s < 2 ^ 32"
  shows "\<exists>tw vw. weak_train_valid_split (example_env rsf) (PFloat (9 / 10)) (PInt s)
           (range_index (example_rows 100)) = Inr (tw, vw)"
proof -
  have rs: "random_state (PInt s) = Inr (PInt s)" using assms by simp
  have sz: "sample_size (PFloat (9 / 10)) (length (example_rows 100)) = Inr 90"
    by (simp only: length_example_rows example_sample_size)
  have ne: "example_rows 100 \<noteq> []"
    using length_example_rows[of 100] by (metis length_0_conv zero_neq_numeral)
  from weak_split_returns[OF rs sz _ _ ne] show ?thesis by simp
qed

lemma example_data_prep:
  assumes "0 \<le> s" "s < 2 ^ 32"
  shows "\<exists>d. data_prep (example_env rs) (example_config ''data'' batch (PInt s)) ld = Inr d"
proof -
  have rd: "read_csv (example_env rs) (PStr ''data/weak.tsv'') = example_rows 100"
    by (simp add: example_env_def)
  obtain tw vw where
    "weak_train_valid_split (example_env rs) (PFloat (9 / 10)) (PInt s)
       (range_index (read_csv (example_env rs) (PStr ''data/weak.tsv''))) = Inr (tw, vw)"
    unfolding rd using example_split[OF assms] by blast
  then show ?thesis
    by (simp add: data_prep_def example_config_def example_data_def getitem2_def Let_def)
qed

lemma getitem_dict_update_same:
  "dict_update config k x = Inr config' \<Longrightarrow> getitem config' k = Inr x"
  by (cases config) (auto simp: update_conv')

lemma single_run_InrD:
  assumes "single_run E config ld gp ck sd fd = Inr r"
  obtains d where "data_prep E config ld = Inr d"
    and "epoch_len E (config_logged d) (tot_train_data d) = Inr (run_epoch_len r)"
    and "models_and_optimizers d (run_epoch_len r) fd = Inr (desed_training r)"
    and "make_trainer (config_logged d) gp ck fd = Inr (run_trainer r)"
    and "phases r = run_phases sd"
  using assms unfolding single_run_def
  by (auto simp: bind_err_eq_Inr)

lemma data_prep_tot:
  assumes "data_prep E config ld = Inr d"
  shows "\<exists>v0 v1 v2. tot_train_data d = [v0, v1, v2] \<and> train_dataset d = [v0, v1, v2]
     \<and> kind v0 = StronglyAnnotatedSet \<and> kind v1 = WeakSet \<and> kind v2 = UnlabelledSet
     \<and> return_filename v0 = None \<and> return_filename v1 = None \<and> return_filename v2 = None"
  using assms unfolding data_prep_def
  by (auto simp: bind_err_eq_Inr Let_def split: prod.splits)

lemma models_and_optimizers_data:
  assumes "models_and_optimizers d el fd = Inr task"
  shows "train_data task = train_dataset d \<and> valid_data task = valid_dataset d
     \<and> test_data task = test_dataset d \<and> train_sampler task = batch_sampler d
     \<and> hparams task = config_logged d \<and> task_encoder task = encoder_of d
     \<and> task_fast_dev_run task = fd"
  using assms unfolding models_and_optimizers_def
  by (auto simp: bind_err_eq_Inr Let_def)

lemma example_run:
  assumes nz: "b0 \<noteq> 0" "b1 \<noteq> 0" "b2 \<noteq> 0"
      and sr: "0 \<le> s" "s < 2 ^ 32"
  shows "\<exists>r. single_run (example_env rs)
              (example_config ''data'' (PList [PInt b0, PInt b1, PInt b2]) (PInt s))
              ld gp ck sd fd = Inr r"
proof -
  let ?E = "example_env rs"
  let ?c = "example_config ''data'' (PList [PInt b0, PInt b1, PInt b2]) (PInt s)"
  obtain d where d: "data_prep ?E ?c ld = Inr d"
    using example_data_prep[OF sr] by blast
  note upd = data_prep_config[OF d]
  from data_prep_tot[OF d] obtain v0 v1 v2 where tot: "tot_train_data d = [v0, v1, v2]"
    by blast
  have bs: "getitem2 (config_logged d) ''training'' ''batch_size'' =
              Inr (PList (PInt b0 # PInt b1 # PInt b2 # []))"
    by (simp add: getitem2_dict_update[OF upd]) (simp add: getitem2_def example_config_def)
  have acc: "getitem2 (config_logged d) ''training'' ''accumulate_batches'' = Inr (PInt 1)"
    by (simp add: getitem2_dict_update[OF upd]) (simp add: getitem2_def example_config_def)
  obtain el where el: "epoch_len ?E (config_logged d) (tot_train_data d) = Inr el"
    using epoch_len_three[OF bs acc, of ?E v0 v1 v2] nz unfolding tot by simp
  note lk = getitem2_def getitem_dict_update[OF upd] getitem_dict_update_same[OF upd]
    example_config_def
  obtain task where task: "models_and_optimizers d el fd = Inr task"
    unfolding models_and_optimizers_def by (simp add: Let_def lk)
  have "\<exists>tr. make_trainer (config_logged d) gp ck fd = Inr tr"
    unfolding make_trainer_def by (cases fd) (simp_all add: Let_def lk)
  then obtain tr where tr: "make_trainer (config_logged d) gp ck fd = Inr tr" ..
  show ?thesis
    unfolding single_run_def by (simp add: d el task tr)
qed

lemma single_run_epoch_len:
  assumes bs: "getitem2 config ''training'' ''batch_size'' =
                 Inr (PList (PInt b0 # PInt b1 # PInt b2 # others))"
      and acc: "getitem2 config ''training'' ''accumulate_batches'' = Inr (PInt a)"
      and run: "single_run E config ld gp ck sd fd = Inr r"
  shows "\<exists>synth weak unlabeled.
               train_data (desed_training r) = [synth, weak, unlabeled]
             \<and> kind synth = StronglyAnnotatedSet \<and> kind weak = WeakSet
             \<and> kind unlabeled = UnlabelledSet
             \<and> run_epoch_len r =
                 spec_epoch_len (map (dataset_len E) [synth, weak, unlabeled]) [b0, b1, b2] a"
proof -
  from run obtain d where d: "data_prep E config ld = Inr d"
    and el: "epoch_len E (config_logged d) (tot_train_data d) = Inr (run_epoch_len r)"
    and task: "models_and_optimizers d (run_epoch_len r) fd = Inr (desed_training r)"
    by (rule single_run_InrD)
  from data_prep_tot[OF d] obtain s w u where tot: "tot_train_data d = [s, w, u]"
    "train_dataset d = [s, w, u]" "kind s = StronglyAnnotatedSet" "kind w = WeakSet"
    "kind u = UnlabelledSet" by blast
  note upd = data_prep_config[OF d]
  have bs': "getitem2 (config_logged d) ''training'' ''batch_size'' =
                 Inr (PList (PInt b0 # PInt b1 # PInt b2 # others))"
    using bs by (simp add: getitem2_dict_update[OF upd])
  have acc': "getitem2 (config_logged d) ''training'' ''accumulate_batches'' = Inr (PInt a)"
    using acc by (simp add: getitem2_dict_update[OF upd])
  have "run_epoch_len r = spec_epoch_len (map (dataset_len E) [s, w, u]) [b0, b1, b2] a"
    using el epoch_len_three[OF bs' acc', of E s w u] unfolding tot
    by (simp split: if_splits)
  moreover have "train_data (desed_training r) = [s, w, u]"
    using models_and_optimizers_data[OF task] tot by simp
  ultimately show ?thesis
    using tot by blast
qed

lemma example_run_epoch_len:
  assumes "single_run (example_env rs)
              (example_config ''data'' (PList [PInt b0, PInt b1, PInt b2]) (PInt s))
              ld gp ck sd fd = Inr r"
  shows "run_epoch_len r = min (120 div b0) (min (90 div b1) (240 div b2))"
proof -
  let ?c = "example_config ''data'' (PList [PInt b0, PInt b1, PInt b2]) (PInt s)"
  have bs: "getitem2 ?c ''training'' ''batch_size'' = Inr (PList (PInt b0 # PInt b1 # PInt b2 # []))"
    by (simp add: getitem2_def example_config_def)
  have acc: "getitem2 ?c ''training'' ''accumulate_batches'' = Inr (PInt 1)"
    by (simp add: getitem2_def example_config_def)
  from single_run_epoch_len[OF bs acc assms] show ?thesis
    by (auto simp: spec_epoch_len_3 example_env_def)
qed

lemma data_prep_valid:
  assumes "data_prep E config ld = Inr d"
  shows "\<exists>synth_val weak_val devtest tw vw ws seed wtsv svtsv ttsv.
       valid_dataset d = [synth_val, weak_val, devtest] \<and> test_dataset d = devtest
     \<and> kind synth_val = StronglyAnnotatedSet \<and> kind weak_val = WeakSet
     \<and> kind devtest = StronglyAnnotatedSet
     \<and> return_filename synth_val = Some True \<and> return_filename weak_val = Some True
     \<and> return_filename devtest = Some True
     \<and> getitem2 (config_logged d) ''data'' ''synth_val_folder'' = Inr (folder synth_val)
     \<and> getitem2 (config_logged d) ''data'' ''weak_folder'' = Inr (folder weak_val)
     \<and> getitem2 (config_logged d) ''data'' ''test_folder'' = Inr (folder devtest)
     \<and> getitem2 (config_logged d) ''data'' ''synth_val_tsv'' = Inr svtsv
     \<and> frame synth_val = Some (range_index (read_csv E svtsv))
     \<and> getitem2 (config_logged d) ''data'' ''test_tsv'' = Inr ttsv
     \<and> frame devtest = Some (range_index (read_csv E ttsv))
     \<and> getitem2 (config_logged d) ''data'' ''weak_tsv'' = Inr wtsv
     \<and> getitem2 (config_logged d) ''training'' ''weak_split'' = Inr ws
     \<and> getitem2 (config_logged d) ''training'' ''seed'' = Inr seed
     \<and> weak_train_valid_split E ws seed (range_index (read_csv E wtsv)) = Inr (tw, vw)
     \<and> frame weak_val = Some vw
     \<and> frame (tot_train_data d ! 1) = Some tw"
  using assms unfolding data_prep_def
  by (auto simp: bind_err_eq_Inr Let_def split: prod.splits)

lemma models_and_optimizers_opt:
  assumes "models_and_optimizers d el fd = Inr task"
  shows "\<exists>kwargs nw steps target.
       getitem (config_logged d) ''net'' = Inr (PDict kwargs)
     \<and> sed_student task = kwargs
     \<and> opt task = \<lparr>params_of = kwargs, lr = PFloat (1 / 1000),
                     betas = (PFloat (9 / 10), PFloat (999 / 1000))\<rparr>
     \<and> getitem2 (config_logged d) ''training'' ''n_epochs_warmup'' = Inr nw
     \<and> py_mul nw (PInt el) = Inr steps
     \<and> getitem2 (config_logged d) ''opt'' ''lr'' = Inr target
     \<and> task_scheduler task =
          \<lparr>scheduler = \<lparr>warmup_optimizer = opt task, warmup_max_lr = target,
                          warmup_steps = steps\<rparr>,
           interval = ''step''\<rparr>"
proof -
  from assms obtain net kwargs where n: "getitem (config_logged d) ''net'' = Inr net"
    and u: "unpack_mapping net = Inr kwargs"
    unfolding models_and_optimizers_def by (auto simp: bind_err_eq_Inr Let_def)
  from u have "net = PDict kwargs" by (cases net) simp_all
  with assms n show ?thesis
    unfolding models_and_optimizers_def by (auto simp: bind_err_eq_Inr Let_def)
qed

lemma make_trainer_limits:
  assumes "make_trainer config gp ck fd = Inr t"
  shows "(fd \<longrightarrow> limit_train_batches t = PInt 2 \<and> limit_val_batches t = PInt 2
              \<and> limit_test_batches t = PInt 2 \<and> max_epochs t = PInt 3
              \<and> log_every_n_steps t = PInt 1 \<and> flush_logs_every_n_steps t = PInt 1)
       \<and> (\<not> fd \<longrightarrow> limit_train_batches t = PFloat 1 \<and> limit_val_batches t = PFloat 1
              \<and> limit_test_batches t = PFloat 1
              \<and> getitem2 config ''training'' ''n_epochs'' = Inr (max_epochs t)
              \<and> log_every_n_steps t = PInt 40 \<and> flush_logs_every_n_steps t = PInt 100)"
  using assms unfolding make_trainer_def
  by (cases fd) (auto simp: bind_err_eq_Inr Let_def)

lemma example_stages:
  assumes sr: "0 \<le> s" "s < 2 ^ 32"
  shows "\<exists>d v0 v1 v2. data_prep (example_env rs) (example_config ''data'' batch (PInt s)) ld = Inr d
     \<and> tot_train_data d = [v0, v1, v2]
     \<and> kind v0 = StronglyAnnotatedSet \<and> kind v1 = WeakSet \<and> kind v2 = UnlabelledSet
     \<and> (\<exists>task. models_and_optimizers d el fd = Inr task)
     \<and> (\<exists>t. make_trainer (config_logged d) gp ck fd = Inr t)"
proof -
  let ?E = "example_env rs"
  let ?c = "example_config ''data'' batch (PInt s)"
  obtain d where d: "data_prep ?E ?c ld = Inr d"
    using example_data_prep[OF sr] by blast
  note upd = data_prep_config[OF d]
  from data_prep_tot[OF d] obtain v0 v1 v2 where tot: "tot_train_data d = [v0, v1, v2]"
    "kind v0 = StronglyAnnotatedSet" "kind v1 = WeakSet" "kind v2 = UnlabelledSet"
    by blast
  note lk = getitem2_def getitem_dict_update[OF upd] getitem_dict_update_same[OF upd]
    example_config_def
  have "\<exists>task. models_and_optimizers d el fd = Inr task"
    unfolding models_and_optimizers_def by (simp add: Let_def lk)
  moreover have "\<exists>t. make_trainer (config_logged d) gp ck fd = Inr t"
    unfolding make_trainer_def by (cases fd) (simp_all add: Let_def lk)
  ultimately show ?thesis using d tot by blast
qed

lemma spec_epoch_len_zero:
  assumes pos: "0 < a" "0 < b0" "0 < b1" "0 < b2"
      and small: "int s0 < b0 * a \<or> int s1 < b1 * a \<or> int s2 < b2 * a"
  shows "spec_epoch_len [s0, s1, s2] [b0, b1, b2] a = 0"
proof -
  have p: "0 < b0 * a" "0 < b1 * a" "0 < b2 * a" using pos by simp_all
  have nn: "0 \<le> int s0 div (b0 * a)" "0 \<le> int s1 div (b1 * a)" "0 \<le> int s2 div (b2 * a)"
    using p by (simp_all add: pos_imp_zdiv_nonneg_iff)
  from small have "int s0 div (b0 * a) = 0 \<or> int s1 div (b1 * a) = 0 \<or> int s2 div (b2 * a) = 0"
    by (auto simp: div_pos_pos_trivial)
  with nn show ?thesis
    unfolding spec_epoch_len_3 by (auto simp: min_def)
qed

lemma map_snd_reset_index [simp]: "map snd (reset_index df) = map snd df"
  by (simp add: reset_index_def)

lemma map_fst_reset_index [simp]: "map fst (reset_index df) = [0..<length df]"
  by (simp add: reset_index_def)

lemma drop_sampled:
  assumes ddf: "distinct (map fst df)" and dS: "distinct (map fst S)" and sub: "set S \<subseteq> set df"
  shows "df_drop (map fst S) df = Inr (filter (\<lambda>p. fst p \<notin> set (map fst S)) df)"
    and "set (map fst S) \<inter> set (map fst (filter (\<lambda>p. fst p \<notin> set (map fst S)) df)) = {}"
    and "set (map fst S) \<union> set (map fst (filter (\<lambda>p. fst p \<notin> set (map fst S)) df))
           = set (map fst df)"
    and "mset S + mset (filter (\<lambda>p. fst p \<notin> set (map fst S)) df) = mset df"
proof -
  let ?V = "filter (\<lambda>p. fst p \<notin> set (map fst S)) df"
  have "set (map fst S) \<subseteq> set (map fst df)" using sub by auto
  then show "df_drop (map fst S) df = Inr ?V" by (rule df_drop_present)
  show "set (map fst S) \<inter> set (map fst ?V) = {}" by force
  show "set (map fst S) \<union> set (map fst ?V) = set (map fst df)" using sub by auto
  have inj: "inj_on fst (set df)" and d1: "distinct df"
    using ddf by (simp_all add: distinct_map)
  have d2: "distinct S" using dS by (simp add: distinct_map)
  have "\<And>p. p \<in> set df \<Longrightarrow> (fst p \<in> set (map fst S)) = (p \<in> set S)"
  proof
    fix p assume p: "p \<in> set df" and "fst p \<in> set (map fst S)"
    then obtain q where q: "q \<in> set S" "fst q = fst p" by auto
    with sub have "q \<in> set df" by auto
    with inj p q(2) have "q = p" by (auto dest: inj_onD)
    with q(1) show "p \<in> set S" by simp
  next
    fix p assume "p \<in> set S" then show "fst p \<in> set (map fst S)" by auto
  qed
  then have V: "?V = filter (\<lambda>p. p \<notin> set S) df"
    by (intro filter_cong) auto
  have "set S = set (filter (\<lambda>p. p \<in> set S) df)" using sub by auto
  moreover have "distinct (filter (\<lambda>p. p \<in> set S) df)" using d1 by simp
  ultimately have "mset S = mset (filter (\<lambda>p. p \<in> set S) df)"
    using d2 set_eq_iff_mset_eq_distinct by blast
  then show "mset S + mset ?V = mset df"
    unfolding V by (simp add: multiset_partition[symmetric])
qed

lemma weak_train_valid_split_InrD:
  assumes "weak_train_valid_split E fraction seed df = Inr (tw, vw)"
  shows "\<exists>S V. df_sample E fraction seed df = Inr S \<and> df_drop (map fst S) df = Inr V
           \<and> tw = reset_index S \<and> vw = reset_index V"
  using assms unfolding weak_train_valid_split_def
  by (auto simp: bind_err_eq_Inr)

lemma single_run_weak_frames:
  assumes "single_run E config ld gp ck sd fd = Inr r"
  shows "\<exists>tsv fraction seed tw vw.
       getitem2 config ''data'' ''weak_tsv'' = Inr tsv
     \<and> getitem2 config ''training'' ''weak_split'' = Inr fraction
     \<and> getitem2 config ''training'' ''seed'' = Inr seed
     \<and> weak_train_valid_split E fraction seed (range_index (read_csv E tsv)) = Inr (tw, vw)
     \<and> kind (train_data (desed_training r) ! 1) = WeakSet
     \<and> frame (train_data (desed_training r) ! 1) = Some tw
     \<and> kind (valid_data (desed_training r) ! 1) = WeakSet
     \<and> frame (valid_data (desed_training r) ! 1) = Some vw"
proof -
  from assms obtain d where d: "data_prep E config ld = Inr d"
    and task: "models_and_optimizers d (run_epoch_len r) fd = Inr (desed_training r)"
    by (rule single_run_InrD)
  note upd = data_prep_config[OF d]
  note m = models_and_optimizers_data[OF task]
  from data_prep_tot[OF d] obtain v0 v1 v2 where
    tr: "tot_train_data d = [v0, v1, v2]" "train_dataset d = [v0, v1, v2]" "kind v1 = WeakSet"
    by blast
  from data_prep_valid[OF d] obtain w0 w1 w2 tw vw ws seed wtsv where
    va: "valid_dataset d = [w0, w1, w2]" "kind w1 = WeakSet"
      "getitem2 (config_logged d) ''data'' ''weak_tsv'' = Inr wtsv"
      "getitem2 (config_logged d) ''training'' ''weak_split'' = Inr ws"
      "getitem2 (config_logged d) ''training'' ''seed'' = Inr seed"
      "weak_train_valid_split E ws seed (range_index (read_csv E wtsv)) = Inr (tw, vw)"
      "frame w1 = Some vw" "frame (tot_train_data d ! 1) = Some tw"
    by blast
  have lk: "getitem2 config ''data'' ''weak_tsv'' = Inr wtsv"
      "getitem2 config ''training'' ''weak_split'' = Inr ws"
      "getitem2 config ''training'' ''seed'' = Inr seed"
    using va(3,4,5) by (simp_all add: getitem2_dict_update[OF upd])
  have "kind (train_data (desed_training r) ! 1) = WeakSet"
      "frame (train_data (desed_training r) ! 1) = Some tw"
      "kind (valid_data (desed_training r) ! 1) = WeakSet"
      "frame (valid_data (desed_training r) ! 1) = Some vw"
    using m tr va(1,2,7,8) by simp_all
  with lk va(6) show ?thesis by blast
qed

lemma main_InrD:
  assumes "snd (main E a) = Inr r"
  shows "\<exists>configs sd seed config_data evs0 evs.
       load_configs E a = Inr (configs, sd)
     \<and> getitem2 configs ''training'' ''seed'' = Inr seed
     \<and> seed_everything E seed = (evs0, Inr ())
     \<and> getitem configs ''data'' = Inr config_data
     \<and> resample_data_generate_durations E config_data = (evs, Inr ())
     \<and> single_run E configs (log_dir a) (PStr (arg_gpus a))
          (opt_str (arg_resume_from_checkpoint a)) sd (arg_fast_dev_run a) = Inr r
     \<and> fst (main E a) = evs0 @ evs @ phases r"
  using assms unfolding main_def
  by (auto simp: Let_def split: sum.splits prod.splits)

lemma single_run_hparams:
  assumes "single_run E config ld gp ck sd fd = Inr r"
  shows "dict_update config ''log_dir'' (PStr ld) = Inr (hparams (desed_training r))"
proof -
  from assms obtain d where d: "data_prep E config ld = Inr d"
    and task: "models_and_optimizers d (run_epoch_len r) fd = Inr (desed_training r)"
    by (rule single_run_InrD)
  from data_prep_config[OF d] models_and_optimizers_data[OF task] show ?thesis by simp
qed

lemma example_load_configs_checkpoint:
  "load_configs (example_env rs) (example_args conf (Some path)) =
     Inr (example_config ''data'' (PList [PInt 24, PInt 24, PInt 48]) (PInt 7),
          PDict [(''sed_student.dense.bias'', PList [PFloat 0])])"
  by (simp add: load_configs_def example_env_def example_args_def example_config_def Let_def)

lemma example_load_configs_plain:
  "load_configs (example_env rs) (example_args conf None) =
     Inr (example_config ''data'' (PList [PInt 12, PInt 12, PInt 24])
            (if conf = ''./confs/seed0.yaml'' then PInt 0 else PInt 42), PNone)"
  by (simp add: load_configs_def example_env_def example_args_def Let_def)

lemma example_resample:
  "\<exists>evs. resample_data_generate_durations (example_env (\<lambda>s t f. False)) (example_data ''data'')
     = (evs, Inr ())"
  by (simp add: resample_data_generate_durations_def dsets_def example_data_def example_env_def)

lemma example_seed_everything:
  assumes "0 \<le> s" "s < 2 ^ 32"
  shows "\<exists>evs. seed_everything (example_env rs) (PInt s) = (evs, Inr ())"
  using assms by (simp add: seed_everything_def example_env_def)

lemma example_main:
  assumes lc: "load_configs (example_env (\<lambda>s t f. False)) a =
                 Inr (example_config ''data'' (PList [PInt b0, PInt b1, PInt b2]) (PInt s), sd)"
      and nz: "b0 \<noteq> 0" "b1 \<noteq> 0" "b2 \<noteq> 0"
      and sr: "0 \<le> s" "s < 2 ^ 32"
  shows "\<exists>r. snd (main (example_env (\<lambda>s t f. False)) a) = Inr r"
proof -
  let ?E = "example_env (\<lambda>s t f. False)"
  let ?c = "example_config ''data'' (PList [PInt b0, PInt b1, PInt b2]) (PInt s)"
  have seed: "getitem2 ?c ''training'' ''seed'' = Inr (PInt s)"
    by (simp add: getitem2_def example_config_def)
  obtain evs0 where se: "seed_everything ?E (PInt s) = (evs0, Inr ())"
    using example_seed_everything[OF sr] by blast
  have dat: "getitem ?c ''data'' = Inr (example_data ''data'')"
    by (simp add: example_config_def)
  obtain evs where rs: "resample_data_generate_durations ?E (example_data ''data'') = (evs, Inr ())"
    using example_resample by blast
  have "\<exists>r. single_run ?E ?c (log_dir a) (PStr (arg_gpus a))
             (opt_str (arg_resume_from_checkpoint a)) sd (arg_fast_dev_run a) = Inr r"
    using nz sr by (rule example_run)
  then obtain r where "single_run ?E ?c (log_dir a) (PStr (arg_gpus a))
             (opt_str (arg_resume_from_checkpoint a)) sd (arg_fast_dev_run a) = Inr r" ..
  then show ?thesis
    unfolding main_def by (simp add: lc seed se dat rs Let_def)
qed

lemma resample_loop_no_seeding:
  "resample_loop E config_data ds computed = (evs, x) \<Longrightarrow> filter is_seeding evs = []"
proof (induction ds arbitrary: computed evs x)
  case Nil
  then show ?case by simp
next
  case (Cons d ds)
  then show ?case
    by (auto split: sum.splits prod.splits)
qed

lemma durations_loop_no_seeding:
  "durations_loop config_data computed bs ex = (evs, x) \<Longrightarrow> filter is_seeding evs = []"
proof (induction bs arbitrary: ex evs x)
  case Nil
  then show ?case by simp
next
  case (Cons b bs)
  then show ?case
    by (auto split: sum.splits prod.splits if_splits)
qed

lemma resample_data_generate_durations_no_seeding:
  "filter is_seeding (fst (resample_data_generate_durations E config_data)) = []"
proof -
  obtain evs1 x where r: "resample_loop E config_data dsets None = (evs1, x)"
    by (cases "resample_loop E config_data dsets None")
  have f1: "filter is_seeding evs1 = []" using r by (rule resample_loop_no_seeding)
  show ?thesis
  proof (cases x)
    case (Inl e)
    then show ?thesis using r f1 by (simp add: resample_data_generate_durations_def)
  next
    case (Inr c)
    obtain evs2 y where d: "durations_loop config_data c [''synth_val'', ''test''] (path_exists E) = (evs2, y)"
      by (cases "durations_loop config_data c [''synth_val'', ''test''] (path_exists E)")
    have f2: "filter is_seeding evs2 = []" using d by (rule durations_loop_no_seeding)
    show ?thesis
      unfolding resample_data_generate_durations_def r Inr
      by (simp only: sum.case prod.case d Let_def fst_conv filter_append f1 f2 append_Nil)
  qed
qed

lemma run_phases_no_seeding: "filter is_seeding (run_phases sd) = []"
  by (simp add: run_phases_def)

lemma seed_everything_falsy: "\<not> truthy seed \<Longrightarrow> seed_everything E seed = ([], Inr ())"
  by (simp add: seed_everything_def)

lemma seed_everything_calls:
  assumes "truthy seed"
  shows "\<exists>m. 1 \<le> m \<and> m \<le> 4 \<and> fst (seed_everything E seed) =
           take m [TorchManualSeed seed, NpRandomSeed seed, RandomSeed seed, PlSeedEverything seed]"
proof -
  let ?F = "[TorchManualSeed seed, NpRandomSeed seed, RandomSeed seed, PlSeedEverything seed]"
  have "fst (seed_everything E seed) = take 1 ?F \<or> fst (seed_everything E seed) = take 2 ?F
      \<or> fst (seed_everything E seed) = take 3 ?F \<or> fst (seed_everything E seed) = take 4 ?F"
    using assms by (simp add: seed_everything_def split: option.splits)
  then show ?thesis
  proof (elim disjE)
    assume "fst (seed_everything E seed) = take 1 ?F"
    then show ?thesis by (intro exI[of _ 1]) simp
  next
    assume "fst (seed_everything E seed) = take 2 ?F"
    then show ?thesis by (intro exI[of _ 2]) simp
  next
    assume "fst (seed_everything E seed) = take 3 ?F"
    then show ?thesis by (intro exI[of _ 3]) simp
  next
    assume "fst (seed_everything E seed) = take 4 ?F"
    then show ?thesis by (intro exI[of _ 4]) simp
  qed
qed

lemma seed_everything_four:
  assumes "truthy seed"
    and "seed_raises E seed 0 = None" "seed_raises E seed 1 = None"
        "seed_raises E seed 2 = None" "seed_raises E seed 3 = None"
  shows "seed_everything E seed =
           ([TorchManualSeed seed, NpRandomSeed seed, RandomSeed seed, PlSeedEverything seed], Inr ())"
  using assms by (simp add: seed_everything_def)

lemma seed_everything_returns:
  assumes "truthy seed" "seed_everything E seed = (evs, Inr u)"
  shows "evs = [TorchManualSeed seed, NpRandomSeed seed, RandomSeed seed, PlSeedEverything seed]"
  using assms by (simp add: seed_everything_def split: option.splits)

lemma seed_everything_seeding:
  "filter is_seeding (fst (seed_everything E seed)) = fst (seed_everything E seed)"
proof (cases "truthy seed")
  case True
  from seed_everything_calls[OF this, of E] obtain m where
    m: "fst (seed_everything E seed) =
           take m [TorchManualSeed seed, NpRandomSeed seed, RandomSeed seed, PlSeedEverything seed]"
    by blast
  have "is_seeding x" if "x \<in> set (take m [TorchManualSeed seed, NpRandomSeed seed, RandomSeed seed,
      PlSeedEverything seed])" for x
  proof -
    from that have "x \<in> set [TorchManualSeed seed, NpRandomSeed seed, RandomSeed seed,
      PlSeedEverything seed]" by (rule in_set_takeD)
    then show ?thesis by auto
  qed
  then have "\<forall>x \<in> set (take m [TorchManualSeed seed, NpRandomSeed seed, RandomSeed seed,
      PlSeedEverything seed]). is_seeding x" by blast
  then show ?thesis unfolding m by (rule filter_True)
next
  case False
  then show ?thesis by (simp add: seed_everything_falsy)
qed

lemma main_events:
  assumes lc: "load_configs E a = Inr (configs, sd)"
      and seed: "getitem2 configs ''training'' ''seed'' = Inr seed"
  shows "\<exists>rest. fst (main E a) = fst (seed_everything E seed) @ rest \<and> filter is_seeding rest = []"
proof -
  obtain evs0 x where se: "seed_everything E seed = (evs0, x)" by (cases "seed_everything E seed")
  show ?thesis
  proof (cases x)
    case (Inl e)
    then show ?thesis unfolding main_def by (simp add: lc seed se)
  next
    case x: (Inr u)
    show ?thesis
    proof (cases "getitem configs ''data''")
      case (Inl e)
      then show ?thesis unfolding main_def by (simp add: lc seed se x)
    next
      case cd: (Inr config_data)
      obtain evs1 y where rs: "resample_data_generate_durations E config_data = (evs1, y)"
        by (cases "resample_data_generate_durations E config_data")
      have f1: "filter is_seeding evs1 = []"
        using resample_data_generate_durations_no_seeding[of E config_data] by (simp add: rs)
      show ?thesis
      proof (cases y)
        case (Inl e)
        then show ?thesis unfolding main_def by (simp add: lc seed se x cd rs f1)
      next
        case y: (Inr v)
        show ?thesis
        proof (cases "single_run E configs (log_dir a) (PStr (arg_gpus a))
                        (opt_str (arg_resume_from_checkpoint a)) sd (arg_fast_dev_run a)")
          case (Inl e)
          then show ?thesis unfolding main_def by (simp add: lc seed se x cd rs y f1)
        next
          case (Inr r)
          then have "phases r = run_phases sd" by (rule single_run_InrD)
          then have "filter is_seeding (phases r) = []" by (simp add: run_phases_no_seeding)
          then show ?thesis unfolding main_def by (simp add: lc seed se x cd rs y f1 Inr)
        qed
      qed
    qed
  qed
qed

lemma main_seeding_calls:
  assumes lc: "load_configs E a = Inr (configs, sd)"
      and seed: "getitem2 configs ''training'' ''seed'' = Inr seed"
  shows "filter is_seeding (fst (main E a)) = fst (seed_everything E seed)"
    and "take (length (fst (seed_everything E seed))) (fst (main E a)) = fst (seed_everything E seed)"
proof -
  from main_events[OF lc seed] obtain rest where
    r: "fst (main E a) = fst (seed_everything E seed) @ rest" "filter is_seeding rest = []"
    by blast
  show "filter is_seeding (fst (main E a)) = fst (seed_everything E seed)"
    by (simp add: r seed_everything_seeding)
  show "take (length (fst (seed_everything E seed))) (fst (main E a)) = fst (seed_everything E seed)"
    by (simp add: r(1))
qed

lemma main_weak_sample:
  assumes lc: "load_configs E a = Inr (configs, sd)"
      and seed: "getitem2 configs ''training'' ''seed'' = Inr seed"
      and r: "snd (main E a) = Inr r"
  shows "seed_everything E seed = (fst (seed_everything E seed), Inr ())"
    and "\<exists>tsv fraction rs k S.
           getitem2 configs ''data'' ''weak_tsv'' = Inr tsv
         \<and> getitem2 configs ''training'' ''weak_split'' = Inr fraction
         \<and> random_state seed = Inr rs
         \<and> sample_size fraction (length (read_csv E tsv)) = Inr k
         \<and> df_sample E fraction seed (range_index (read_csv E tsv)) = Inr S
         \<and> S = map (\<lambda>i. range_index (read_csv E tsv) ! i)
                 (take (nat k) (permutation_of E rs (length (read_csv E tsv))))
         \<and> kind (train_data (desed_training r) ! 1) = WeakSet
         \<and> frame (train_data (desed_training r) ! 1) = Some (reset_index S)"
proof -
  from main_InrD[OF r] lc seed obtain evs0 where
    se: "seed_everything E seed = (evs0, Inr ())"
    and run: "single_run E configs (log_dir a) (PStr (arg_gpus a))
          (opt_str (arg_resume_from_checkpoint a)) sd (arg_fast_dev_run a) = Inr r"
    by auto
  show "seed_everything E seed = (fst (seed_everything E seed), Inr ())" by (simp add: se)
  from single_run_weak_frames[OF run] seed obtain tsv fraction tw vw where
    w: "getitem2 configs ''data'' ''weak_tsv'' = Inr tsv"
       "getitem2 configs ''training'' ''weak_split'' = Inr fraction"
       "weak_train_valid_split E fraction seed (range_index (read_csv E tsv)) = Inr (tw, vw)"
       "kind (train_data (desed_training r) ! 1) = WeakSet"
       "frame (train_data (desed_training r) ! 1) = Some tw"
    by auto
  from weak_train_valid_split_InrD[OF w(3)] obtain S where
    S: "df_sample E fraction seed (range_index (read_csv E tsv)) = Inr S" "tw = reset_index S"
    by blast
  from df_sample_InrD[OF S(1)] obtain rs k where
    "random_state seed = Inr rs" "sample_size fraction (length (read_csv E tsv)) = Inr k"
    "S = map (\<lambda>i. range_index (read_csv E tsv) ! i)
           (take (nat k) (permutation_of E rs (length (read_csv E tsv))))"
    by blast
  with w S show "\<exists>tsv fraction rs k S.
           getitem2 configs ''data'' ''weak_tsv'' = Inr tsv
         \<and> getitem2 configs ''training'' ''weak_split'' = Inr fraction
         \<and> random_state seed = Inr rs
         \<and> sample_size fraction (length (read_csv E tsv)) = Inr k
         \<and> df_sample E fraction seed (range_index (read_csv E tsv)) = Inr S
         \<and> S = map (\<lambda>i. range_index (read_csv E tsv) ! i)
                 (take (nat k) (permutation_of E rs (length (read_csv E tsv))))
         \<and> kind (train_data (desed_training r) ! 1) = WeakSet
         \<and> frame (train_data (desed_training r) ! 1) = Some (reset_index S)"
    by blast
qed


section \<open>The epoch length\<close>

text \<open>
  Claim C1. For every configuration whose \<^verbatim>\<open>training.batch_size\<close> starts with three
  integers \<open>b0, b1, b2\<close> and whose \<^verbatim>\<open>training.accumulate_batches\<close> is an integer \<open>a\<close>,
  the epoch length that \<^verbatim>\<open>single_run\<close> computes over its three training subsets, in the
  order synthetic, weak, unlabeled, is the minimum over the subsets of
  \<open>floor (size / (batch_size * accumulate_batches))\<close>, the \<open>i\<close>-th batch size paired with
  the \<open>i\<close>-th subset. The first conjunct is the computation of lines 144--153 on any three
  subsets (it raises \<^verbatim>\<open>ZeroDivisionError\<close> exactly when a product is zero); the second is
  the value inside a run of \<^verbatim>\<open>single_run\<close> that returns.
\<close>

theorem epoch_len_min_floor:
  assumes bs: "getitem2 config ''training'' ''batch_size'' =
                 Inr (PList (PInt b0 # PInt b1 # PInt b2 # others))"
      and acc: "getitem2 config ''training'' ''accumulate_batches'' = Inr (PInt a)"
  shows "epoch_len E config [v0, v1, v2] =
           (if b0 * a = 0 \<or> b1 * a = 0 \<or> b2 * a = 0 then Inl ZeroDivisionError
            else Inr (spec_epoch_len (map (dataset_len E) [v0, v1, v2]) [b0, b1, b2] a))
       \<and> (single_run E config ld gp ck sd fd = Inr r \<longrightarrow>
            (\<exists>synth weak unlabeled.
               train_data (desed_training r) = [synth, weak, unlabeled]
             \<and> kind synth = StronglyAnnotatedSet \<and> kind weak = WeakSet
             \<and> kind unlabeled = UnlabelledSet
             \<and> run_epoch_len r =
                 spec_epoch_len (map (dataset_len E) [synth, weak, unlabeled]) [b0, b1, b2] a))"
  using epoch_len_three[OF bs acc] single_run_epoch_len[OF bs acc] by blast

theorem epoch_len_min_floor_witness:
  "\<exists>r. single_run (example_env (\<lambda>s t f. False))
         (example_config ''data'' (PList [PInt 12, PInt 12, PInt 24]) (PInt 42))
         ''./exp/2021_baseline'' (PStr ''0'') PNone PNone False = Inr r
       \<and> run_epoch_len r = 7"
proof -
  let ?E = "example_env (\<lambda>s t f. False)"
  let ?c = "example_config ''data'' (PList [PInt 12, PInt 12, PInt 24]) (PInt 42)"
  have "\<exists>r. single_run ?E ?c ''./exp/2021_baseline'' (PStr ''0'') PNone PNone False = Inr r"
    by (rule example_run) simp_all
  then obtain r where
    r: "single_run ?E ?c ''./exp/2021_baseline'' (PStr ''0'') PNone PNone False = Inr r" ..
  have bs: "getitem2 ?c ''training'' ''batch_size'' = Inr (PList (PInt 12 # PInt 12 # PInt 24 # []))"
    by (simp add: getitem2_def example_config_def)
  have acc: "getitem2 ?c ''training'' ''accumulate_batches'' = Inr (PInt 1)"
    by (simp add: getitem2_def example_config_def)
  from epoch_len_min_floor[OF bs acc, of ?E _ _ _ "''./exp/2021_baseline''" "PStr ''0''" PNone PNone False r] r
  obtain synth weak unlabeled where
    k: "kind synth = StronglyAnnotatedSet" "kind weak = WeakSet" "kind unlabeled = UnlabelledSet"
    and e: "run_epoch_len r =
              spec_epoch_len (map (dataset_len ?E) [synth, weak, unlabeled]) [12, 12, 24] 1"
    by blast
  have "run_epoch_len r = 7"
    unfolding e by (simp add: spec_epoch_len_3 example_env_def k)
  with r show ?thesis by blast
qed

section \<open>Fit or load, then test\<close>

text \<open>
  Claim C6. In a run of \<^verbatim>\<open>single_run\<close> that reaches line 223, \<^verbatim>\<open>trainer.fit\<close> is called
  if and only if \<^verbatim>\<open>test_state_dict\<close> is \<^verbatim>\<open>None\<close>; otherwise there is no training and
  the given state dictionary is loaded into the module; in both cases exactly one test
  pass follows, as the last call.
\<close>

theorem fit_iff_no_test_state_dict:
  assumes "single_run E config ld gp ck sd fd = Inr r"
  shows "(TrainerFit \<in> set (phases r) \<longleftrightarrow> sd = PNone)
       \<and> (LoadStateDict sd \<in> set (phases r) \<longleftrightarrow> sd \<noteq> PNone)
       \<and> phases r = (if sd = PNone then [TrainerFit, TrainerTest ''best'']
                      else [LoadStateDict sd, TrainerTest ''best''])
       \<and> length (filter (\<lambda>e. \<exists>p. e = TrainerTest p) (phases r)) = 1
       \<and> last (phases r) = TrainerTest ''best''"
proof -
  from assms have "phases r = run_phases sd" by (rule single_run_InrD)
  then show ?thesis by (auto simp: run_phases_def)
qed

theorem fit_iff_no_test_state_dict_witness:
  "\<exists>r. single_run (example_env (\<lambda>s t f. False))
         (example_config ''data'' (PList [PInt 12, PInt 12, PInt 24]) (PInt 42))
         ''./exp/2021_baseline'' (PStr ''0'') PNone
         (PDict [(''sed_student.dense.bias'', PList [PFloat 0])]) False = Inr r
       \<and> TrainerFit \<notin> set (phases r)
       \<and> phases r = [LoadStateDict (PDict [(''sed_student.dense.bias'', PList [PFloat 0])]),
                      TrainerTest ''best'']"
proof -
  let ?E = "example_env (\<lambda>s t f. False)"
  let ?c = "example_config ''data'' (PList [PInt 12, PInt 12, PInt 24]) (PInt 42)"
  let ?sd = "PDict [(''sed_student.dense.bias'', PList [PFloat 0])]"
  have "\<exists>r. single_run ?E ?c ''./exp/2021_baseline'' (PStr ''0'') PNone ?sd False = Inr r"
    by (rule example_run) simp_all
  then obtain r where
    r: "single_run ?E ?c ''./exp/2021_baseline'' (PStr ''0'') PNone ?sd False = Inr r" ..
  from fit_iff_no_test_state_dict[OF r] r show ?thesis by auto
qed

section \<open>Optimizer and scheduler\<close>

text \<open>
  Claim C7. \<^verbatim>\<open>single_run\<close> constructs Adam over the parameters of the network built from
  \<^verbatim>\<open>config["net"]\<close>, with learning rate \<^verbatim>\<open>1e-3\<close> and betas \<^verbatim>\<open>(0.9, 0.999)\<close>, and wraps it
  in an \<^verbatim>\<open>ExponentialWarmup\<close> whose target is \<^verbatim>\<open>config["opt"]["lr"]\<close> and whose length is
  \<^verbatim>\<open>training.n_epochs_warmup * epoch_len\<close>, registered with the interval \<^verbatim>\<open>"step"\<close>.
\<close>

theorem adam_with_step_warmup:
  assumes "single_run E config ld gp ck sd fd = Inr r"
  shows "\<exists>kwargs nw steps target.
       getitem config ''net'' = Inr (PDict kwargs)
     \<and> sed_student (desed_training r) = kwargs
     \<and> opt (desed_training r) =
          \<lparr>params_of = kwargs, lr = PFloat (1 / 1000),
           betas = (PFloat (9 / 10), PFloat (999 / 1000))\<rparr>
     \<and> getitem2 config ''training'' ''n_epochs_warmup'' = Inr nw
     \<and> py_mul nw (PInt (run_epoch_len r)) = Inr steps
     \<and> (\<forall>w. nw = PInt w \<longrightarrow> steps = PInt (w * run_epoch_len r))
     \<and> getitem2 config ''opt'' ''lr'' = Inr target
     \<and> task_scheduler (desed_training r) =
          \<lparr>scheduler = \<lparr>warmup_optimizer = opt (desed_training r), warmup_max_lr = target,
                          warmup_steps = steps\<rparr>,
           interval = ''step''\<rparr>"
proof -
  from assms obtain d where d: "data_prep E config ld = Inr d"
    and task: "models_and_optimizers d (run_epoch_len r) fd = Inr (desed_training r)"
    by (rule single_run_InrD)
  note upd = data_prep_config[OF d]
  from models_and_optimizers_opt[OF task] obtain kwargs nw steps target where
    f: "getitem (config_logged d) ''net'' = Inr (PDict kwargs)"
       "sed_student (desed_training r) = kwargs"
       "opt (desed_training r) =
          \<lparr>params_of = kwargs, lr = PFloat (1 / 1000),
           betas = (PFloat (9 / 10), PFloat (999 / 1000))\<rparr>"
       "getitem2 (config_logged d) ''training'' ''n_epochs_warmup'' = Inr nw"
       "py_mul nw (PInt (run_epoch_len r)) = Inr steps"
       "getitem2 (config_logged d) ''opt'' ''lr'' = Inr target"
       "task_scheduler (desed_training r) =
          \<lparr>scheduler = \<lparr>warmup_optimizer = opt (desed_training r), warmup_max_lr = target,
                          warmup_steps = steps\<rparr>,
           interval = ''step''\<rparr>"
    by blast
  have "getitem config ''net'' = Inr (PDict kwargs)"
    using f(1) by (simp add: getitem_dict_update[OF upd])
  moreover have "getitem2 config ''training'' ''n_epochs_warmup'' = Inr nw"
    using f(4) by (simp add: getitem2_dict_update[OF upd])
  moreover have "getitem2 config ''opt'' ''lr'' = Inr target"
    using f(6) by (simp add: getitem2_dict_update[OF upd])
  moreover have "\<forall>w. nw = PInt w \<longrightarrow> steps = PInt (w * run_epoch_len r)"
    using f(5) by auto
  ultimately show ?thesis using f(2,3,5,7) by blast
qed

theorem adam_with_step_warmup_witness:
  "\<exists>r. single_run (example_env (\<lambda>s t f. False))
         (example_config ''data'' (PList [PInt 12, PInt 12, PInt 24]) (PInt 42))
         ''./exp/2021_baseline'' (PStr ''0'') PNone PNone False = Inr r
       \<and> lr (opt (desed_training r)) = PFloat (1 / 1000)
       \<and> betas (opt (desed_training r)) = (PFloat (9 / 10), PFloat (999 / 1000))
       \<and> params_of (opt (desed_training r)) = [(''dropout'', PFloat (1 / 2)), (''n_in_channel'', PInt 1)]
       \<and> task_scheduler (desed_training r) =
            \<lparr>scheduler = \<lparr>warmup_optimizer = opt (desed_training r),
                            warmup_max_lr = PFloat (1 / 1000), warmup_steps = PInt 350\<rparr>,
             interval = ''step''\<rparr>"
proof -
  let ?E = "example_env (\<lambda>s t f. False)"
  let ?c = "example_config ''data'' (PList [PInt 12, PInt 12, PInt 24]) (PInt 42)"
  have "\<exists>r. single_run ?E ?c ''./exp/2021_baseline'' (PStr ''0'') PNone PNone False = Inr r"
    by (rule example_run) simp_all
  then obtain r where
    r: "single_run ?E ?c ''./exp/2021_baseline'' (PStr ''0'') PNone PNone False = Inr r" ..
  have e: "run_epoch_len r = 7"
    using example_run_epoch_len[OF r] by simp
  have lk: "getitem ?c ''net'' = Inr (PDict [(''dropout'', PFloat (1 / 2)), (''n_in_channel'', PInt 1)])"
    "getitem2 ?c ''training'' ''n_epochs_warmup'' = Inr (PInt 50)"
    "getitem2 ?c ''opt'' ''lr'' = Inr (PFloat (1 / 1000))"
    by (simp_all add: getitem2_def example_config_def)
  from adam_with_step_warmup[OF r] show ?thesis
    unfolding lk e using r by auto
qed

section \<open>Fast development runs\<close>

text \<open>
  Claim C8. With \<^verbatim>\<open>fast_dev_run\<close> the trainer is limited to 2 batches in each of the
  train, validation and test phases, runs 3 epochs, and logs and flushes every step;
  without it the three limits are the float \<^verbatim>\<open>1.0\<close> (all the data), the number of
  epochs is \<^verbatim>\<open>training.n_epochs\<close>, and the log and flush frequencies are 40 and 100 steps.
\<close>

theorem fast_dev_run_limits:
  assumes "single_run E config ld gp ck sd fd = Inr r"
  shows "(fd \<longrightarrow> limit_train_batches (run_trainer r) = PInt 2
              \<and> limit_val_batches (run_trainer r) = PInt 2
              \<and> limit_test_batches (run_trainer r) = PInt 2
              \<and> max_epochs (run_trainer r) = PInt 3
              \<and> log_every_n_steps (run_trainer r) = PInt 1
              \<and> flush_logs_every_n_steps (run_trainer r) = PInt 1)
       \<and> (\<not> fd \<longrightarrow> limit_train_batches (run_trainer r) = PFloat 1
              \<and> limit_val_batches (run_trainer r) = PFloat 1
              \<and> limit_test_batches (run_trainer r) = PFloat 1
              \<and> getitem2 config ''training'' ''n_epochs'' = Inr (max_epochs (run_trainer r))
              \<and> log_every_n_steps (run_trainer r) = PInt 40
              \<and> flush_logs_every_n_steps (run_trainer r) = PInt 100)"
proof -
  from assms obtain d where d: "data_prep E config ld = Inr d"
    and t: "make_trainer (config_logged d) gp ck fd = Inr (run_trainer r)"
    by (rule single_run_InrD)
  note upd = data_prep_config[OF d]
  from make_trainer_limits[OF t] show ?thesis
    by (simp add: getitem2_dict_update[OF upd])
qed

theorem fast_dev_run_limits_witness:
  "(\<exists>r. single_run (example_env (\<lambda>s t f. False))
         (example_config ''data'' (PList [PInt 12, PInt 12, PInt 24]) (PInt 42))
         ''./exp/2021_baseline'' (PStr ''0'') PNone PNone True = Inr r
       \<and> limit_train_batches (run_trainer r) = PInt 2
       \<and> limit_val_batches (run_trainer r) = PInt 2
       \<and> limit_test_batches (run_trainer r) = PInt 2
       \<and> max_epochs (run_trainer r) = PInt 3
       \<and> log_every_n_steps (run_trainer r) = PInt 1
       \<and> flush_logs_every_n_steps (run_trainer r) = PInt 1)
   \<and> (\<exists>r. single_run (example_env (\<lambda>s t f. False))
         (example_config ''data'' (PList [PInt 12, PInt 12, PInt 24]) (PInt 42))
         ''./exp/2021_baseline'' (PStr ''0'') PNone PNone False = Inr r
       \<and> limit_train_batches (run_trainer r) = PFloat 1
       \<and> limit_val_batches (run_trainer r) = PFloat 1
       \<and> limit_test_batches (run_trainer r) = PFloat 1
       \<and> max_epochs (run_trainer r) = PInt 200
       \<and> log_every_n_steps (run_trainer r) = PInt 40
       \<and> flush_logs_every_n_steps (run_trainer r) = PInt 100)"
proof -
  let ?E = "example_env (\<lambda>s t f. False)"
  let ?c = "example_config ''data'' (PList [PInt 12, PInt 12, PInt 24]) (PInt 42)"
  have "\<exists>r. single_run ?E ?c ''./exp/2021_baseline'' (PStr ''0'') PNone PNone True = Inr r"
    by (rule example_run) simp_all
  then obtain r1 where
    r1: "single_run ?E ?c ''./exp/2021_baseline'' (PStr ''0'') PNone PNone True = Inr r1" ..
  have "\<exists>r. single_run ?E ?c ''./exp/2021_baseline'' (PStr ''0'') PNone PNone False = Inr r"
    by (rule example_run) simp_all
  then obtain r2 where
    r2: "single_run ?E ?c ''./exp/2021_baseline'' (PStr ''0'') PNone PNone False = Inr r2" ..
  have lk: "getitem2 ?c ''training'' ''n_epochs'' = Inr (PInt 200)"
    by (simp add: getitem2_def example_config_def)
  from fast_dev_run_limits[OF r1] r1 have A: "\<exists>r. single_run ?E ?c ''./exp/2021_baseline'' (PStr ''0'') PNone PNone True = Inr r
       \<and> limit_train_batches (run_trainer r) = PInt 2
       \<and> limit_val_batches (run_trainer r) = PInt 2
       \<and> limit_test_batches (run_trainer r) = PInt 2
       \<and> max_epochs (run_trainer r) = PInt 3
       \<and> log_every_n_steps (run_trainer r) = PInt 1
       \<and> flush_logs_every_n_steps (run_trainer r) = PInt 1" by simp
  from fast_dev_run_limits[OF r2] r2 have B: "\<exists>r. single_run ?E ?c ''./exp/2021_baseline'' (PStr ''0'') PNone PNone False = Inr r
       \<and> limit_train_batches (run_trainer r) = PFloat 1
       \<and> limit_val_batches (run_trainer r) = PFloat 1
       \<and> limit_test_batches (run_trainer r) = PFloat 1
       \<and> max_epochs (run_trainer r) = PInt 200
       \<and> log_every_n_steps (run_trainer r) = PInt 40
       \<and> flush_logs_every_n_steps (run_trainer r) = PInt 100" unfolding lk by simp
  from A B show ?thesis by blast
qed

section \<open>Validation and test data\<close>

text \<open>
  Claim C10. The validation data handed to the Lightning module is the concatenation of
  the synthetic-validation set, the weak-validation set and the devtest set, in this
  order, and the test data is that same devtest set, so that every validation pass also
  runs over the test data. The three validation views (the last of them also the test
  view) are exactly the views constructed with \<^verbatim>\<open>return_filename=True\<close>; the three
  training views are constructed without the keyword.
\<close>

theorem validation_includes_devtest:
  assumes "single_run E config ld gp ck sd fd = Inr r"
  shows "\<exists>synth_val weak_val devtest svtsv ttsv.
       valid_data (desed_training r) = [synth_val, weak_val, devtest]
     \<and> test_data (desed_training r) = devtest
     \<and> kind synth_val = StronglyAnnotatedSet
     \<and> getitem2 config ''data'' ''synth_val_folder'' = Inr (folder synth_val)
     \<and> getitem2 config ''data'' ''synth_val_tsv'' = Inr svtsv
     \<and> frame synth_val = Some (range_index (read_csv E svtsv))
     \<and> kind weak_val = WeakSet
     \<and> getitem2 config ''data'' ''weak_folder'' = Inr (folder weak_val)
     \<and> kind devtest = StronglyAnnotatedSet
     \<and> getitem2 config ''data'' ''test_folder'' = Inr (folder devtest)
     \<and> getitem2 config ''data'' ''test_tsv'' = Inr ttsv
     \<and> frame devtest = Some (range_index (read_csv E ttsv))
     \<and> filter (\<lambda>v. return_filename v = Some True)
          (train_data (desed_training r) @ valid_data (desed_training r))
        = valid_data (desed_training r)
     \<and> map return_filename (train_data (desed_training r)) = [None, None, None]
     \<and> map return_filename (valid_data (desed_training r)) = [Some True, Some True, Some True]"
proof -
  from assms obtain d where d: "data_prep E config ld = Inr d"
    and task: "models_and_optimizers d (run_epoch_len r) fd = Inr (desed_training r)"
    by (rule single_run_InrD)
  note upd = data_prep_config[OF d]
  note m = models_and_optimizers_data[OF task]
  from data_prep_tot[OF d] obtain v0 v1 v2 where
    tr: "train_dataset d = [v0, v1, v2]" "return_filename v0 = None"
        "return_filename v1 = None" "return_filename v2 = None" by blast
  from data_prep_valid[OF d] obtain synth_val weak_val devtest svtsv ttsv where
    va: "valid_dataset d = [synth_val, weak_val, devtest]" "test_dataset d = devtest"
      "kind synth_val = StronglyAnnotatedSet" "kind weak_val = WeakSet"
      "kind devtest = StronglyAnnotatedSet"
      "return_filename synth_val = Some True" "return_filename weak_val = Some True"
      "return_filename devtest = Some True"
      "getitem2 (config_logged d) ''data'' ''synth_val_folder'' = Inr (folder synth_val)"
      "getitem2 (config_logged d) ''data'' ''weak_folder'' = Inr (folder weak_val)"
      "getitem2 (config_logged d) ''data'' ''test_folder'' = Inr (folder devtest)"
      "getitem2 (config_logged d) ''data'' ''synth_val_tsv'' = Inr svtsv"
      "frame synth_val = Some (range_index (read_csv E svtsv))"
      "getitem2 (config_logged d) ''data'' ''test_tsv'' = Inr ttsv"
      "frame devtest = Some (range_index (read_csv E ttsv))"
    by blast
  have lk: "getitem2 config ''data'' ''synth_val_folder'' = Inr (folder synth_val)"
      "getitem2 config ''data'' ''weak_folder'' = Inr (folder weak_val)"
      "getitem2 config ''data'' ''test_folder'' = Inr (folder devtest)"
      "getitem2 config ''data'' ''synth_val_tsv'' = Inr svtsv"
      "getitem2 config ''data'' ''test_tsv'' = Inr ttsv"
    using va(9,10,11,12,14) by (simp_all add: getitem2_dict_update[OF upd])
  have "filter (\<lambda>v. return_filename v = Some True)
          (train_data (desed_training r) @ valid_data (desed_training r))
        = valid_data (desed_training r)"
    using m tr va(1,6,7,8) by simp
  moreover have "map return_filename (train_data (desed_training r)) = [None, None, None]"
    using m tr by simp
  moreover have "map return_filename (valid_data (desed_training r)) =
      [Some True, Some True, Some True]"
    using m va(1,6,7,8) by simp
  moreover have "valid_data (desed_training r) = [synth_val, weak_val, devtest]"
    "test_data (desed_training r) = devtest"
    using m va(1,2) by simp_all
  ultimately show ?thesis
    using lk va(3,4,5,13,15)
    by (intro exI[of _ synth_val] exI[of _ weak_val] exI[of _ devtest] exI[of _ svtsv]
          exI[of _ ttsv]) simp
qed

theorem validation_includes_devtest_witness:
  "\<exists>r. single_run (example_env (\<lambda>s t f. False))
         (example_config ''data'' (PList [PInt 12, PInt 12, PInt 24]) (PInt 42))
         ''./exp/2021_baseline'' (PStr ''0'') PNone PNone False = Inr r
       \<and> map kind (valid_data (desed_training r)) = [StronglyAnnotatedSet, WeakSet, StronglyAnnotatedSet]
       \<and> map folder (valid_data (desed_training r)) =
           [PStr ''data/synth/val_16k'', PStr ''data/weak_16k'', PStr ''data/test_16k'']
       \<and> test_data (desed_training r) = valid_data (desed_training r) ! 2
       \<and> frame (test_data (desed_training r)) = Some (range_index (example_rows 3))
       \<and> map return_filename (train_data (desed_training r) @ valid_data (desed_training r)) =
           [None, None, None, Some True, Some True, Some True]"
proof -
  let ?E = "example_env (\<lambda>s t f. False)"
  let ?c = "example_config ''data'' (PList [PInt 12, PInt 12, PInt 24]) (PInt 42)"
  have "\<exists>r. single_run ?E ?c ''./exp/2021_baseline'' (PStr ''0'') PNone PNone False = Inr r"
    by (rule example_run) simp_all
  then obtain r where
    r: "single_run ?E ?c ''./exp/2021_baseline'' (PStr ''0'') PNone PNone False = Inr r" ..
  have lk: "getitem2 ?c ''data'' ''synth_val_folder'' = Inr (PStr ''data/synth/val_16k'')"
      "getitem2 ?c ''data'' ''weak_folder'' = Inr (PStr ''data/weak_16k'')"
      "getitem2 ?c ''data'' ''test_folder'' = Inr (PStr ''data/test_16k'')"
      "getitem2 ?c ''data'' ''synth_val_tsv'' = Inr (PStr ''data/synth/val.tsv'')"
      "getitem2 ?c ''data'' ''test_tsv'' = Inr (PStr ''data/test.tsv'')"
    by (simp_all add: getitem2_def example_config_def example_data_def)
  have rd: "read_csv ?E (PStr ''data/test.tsv'') = example_rows 3"
    by (simp add: example_env_def)
  from validation_includes_devtest[OF r] show ?thesis
    unfolding lk using r rd by auto
qed

section \<open>A zero epoch length\<close>

text \<open>
  Claim C2 says that \<^verbatim>\<open>single_run\<close> fails fast with a configuration error when a
  subset's batch size (times the accumulation factor) exceeds the subset's size, so that
  the epoch length is zero. The recipe has no such check. What holds: with positive
  integer batch sizes and accumulation factor, such a subset makes the computed epoch
  length zero, and \<^verbatim>\<open>single_run\<close> goes on with it: when data preparation, the
  construction of model, optimizer and scheduler for an epoch length of 0, and the
  construction of the trainer raise nothing, \<^verbatim>\<open>single_run\<close> raises nothing, and it
  calls \<^verbatim>\<open>fit\<close> (without a test state dictionary) and \<^verbatim>\<open>test\<close>.
\<close>

theorem zero_epoch_len_is_no_error:
  assumes bs: "getitem2 config ''training'' ''batch_size'' =
                 Inr (PList (PInt b0 # PInt b1 # PInt b2 # others))"
      and acc: "getitem2 config ''training'' ''accumulate_batches'' = Inr (PInt a)"
      and pos: "0 < a" "0 < b0" "0 < b1" "0 < b2"
      and d: "data_prep E config ld = Inr d"
      and small: "\<exists>i<3. int (dataset_len E (tot_train_data d ! i)) < [b0, b1, b2] ! i * a"
      and task: "models_and_optimizers d 0 fd = Inr task"
      and tr: "make_trainer (config_logged d) gp ck fd = Inr t"
  shows "epoch_len E (config_logged d) (tot_train_data d) = Inr 0
       \<and> single_run E config ld gp ck sd fd =
           Inr \<lparr>desed_training = task, run_trainer = t, run_epoch_len = 0,
                phases = (if sd = PNone then [TrainerFit] else [LoadStateDict sd])
                         @ [TrainerTest ''best'']\<rparr>"
proof -
  note upd = data_prep_config[OF d]
  from data_prep_tot[OF d] obtain v0 v1 v2 where tot: "tot_train_data d = [v0, v1, v2]"
    by blast
  have bs': "getitem2 (config_logged d) ''training'' ''batch_size'' =
                 Inr (PList (PInt b0 # PInt b1 # PInt b2 # others))"
    using bs by (simp add: getitem2_dict_update[OF upd])
  have acc': "getitem2 (config_logged d) ''training'' ''accumulate_batches'' = Inr (PInt a)"
    using acc by (simp add: getitem2_dict_update[OF upd])
  have nz: "\<not> (b0 * a = 0 \<or> b1 * a = 0 \<or> b2 * a = 0)" using pos by simp
  from small have "int (dataset_len E v0) < b0 * a \<or> int (dataset_len E v1) < b1 * a
      \<or> int (dataset_len E v2) < b2 * a"
    unfolding tot by (auto simp: less_Suc_eq numeral_3_eq_3)
  then have z: "spec_epoch_len (map (dataset_len E) [v0, v1, v2]) [b0, b1, b2] a = 0"
    using spec_epoch_len_zero[OF pos] by simp
  have el: "epoch_len E (config_logged d) (tot_train_data d) = Inr 0"
    unfolding tot epoch_len_three[OF bs' acc'] using nz z by simp
  show ?thesis
    unfolding single_run_def by (simp add: d el task tr run_phases_def)
qed


theorem zero_epoch_len_is_no_error_witness:
  "\<exists>d task t.
       data_prep (example_env (\<lambda>s t f. False))
         (example_config ''data'' (PList [PInt 12, PInt 120, PInt 24]) (PInt 42))
         ''./exp/2021_baseline'' = Inr d
     \<and> int (dataset_len (example_env (\<lambda>s t f. False)) (tot_train_data d ! 1)) < 120 * 1
     \<and> models_and_optimizers d 0 False = Inr task
     \<and> make_trainer (config_logged d) (PStr ''0'') PNone False = Inr t
     \<and> single_run (example_env (\<lambda>s t f. False))
         (example_config ''data'' (PList [PInt 12, PInt 120, PInt 24]) (PInt 42))
         ''./exp/2021_baseline'' (PStr ''0'') PNone PNone False =
           Inr \<lparr>desed_training = task, run_trainer = t, run_epoch_len = 0,
                phases = [TrainerFit, TrainerTest ''best'']\<rparr>"
proof -
  let ?E = "example_env (\<lambda>s t f. False)"
  let ?c = "example_config ''data'' (PList [PInt 12, PInt 120, PInt 24]) (PInt 42)"
  have "(0::int) \<le> 42" "(42::int) < 2 ^ 32" by simp_all
  from example_stages[OF this, of "\<lambda>s t f. False" "PList [PInt 12, PInt 120, PInt 24]"
      "''./exp/2021_baseline''" 0 False "PStr ''0''" PNone]
  obtain d v0 v1 v2 task t where d: "data_prep ?E ?c ''./exp/2021_baseline'' = Inr d"
    and tot: "tot_train_data d = [v0, v1, v2]" "kind v1 = WeakSet"
    and task: "models_and_optimizers d 0 False = Inr task"
    and t: "make_trainer (config_logged d) (PStr ''0'') PNone False = Inr t"
    by blast
  have bs: "getitem2 ?c ''training'' ''batch_size'' =
      Inr (PList (PInt 12 # PInt 120 # PInt 24 # []))"
    by (simp add: getitem2_def example_config_def)
  have acc: "getitem2 ?c ''training'' ''accumulate_batches'' = Inr (PInt 1)"
    by (simp add: getitem2_def example_config_def)
  have sm: "int (dataset_len ?E (tot_train_data d ! 1)) < 120 * 1"
    by (simp add: tot example_env_def)
  then have small: "\<exists>i<3. int (dataset_len ?E (tot_train_data d ! i)) < [12, 120, 24] ! i * 1"
    by (intro exI[of _ 1]) simp
  from zero_epoch_len_is_no_error[OF bs acc _ _ _ _ d small task t, of PNone]
  have "single_run ?E ?c ''./exp/2021_baseline'' (PStr ''0'') PNone PNone False =
           Inr \<lparr>desed_training = task, run_trainer = t, run_epoch_len = 0,
                phases = [TrainerFit, TrainerTest ''best'']\<rparr>"
    by simp
  with d sm task t show ?thesis by blast
qed

theorem zero_epoch_len_counterexample:
  "(\<exists>r. single_run (example_env (\<lambda>s t f. False))
         (example_config ''data'' (PList [PInt 12, PInt 120, PInt 24]) (PInt 42))
         ''./exp/2021_baseline'' (PStr ''0'') PNone PNone False = Inr r
       \<and> kind (train_data (desed_training r) ! 1) = WeakSet
       \<and> dataset_len (example_env (\<lambda>s t f. False)) (train_data (desed_training r) ! 1) = 90
       \<and> run_epoch_len r = 0
       \<and> TrainerFit \<in> set (phases r))
   \<and> \<not> (\<exists>e. single_run (example_env (\<lambda>s t f. False))
         (example_config ''data'' (PList [PInt 12, PInt 120, PInt 24]) (PInt 42))
         ''./exp/2021_baseline'' (PStr ''0'') PNone PNone False = Inl e)"
proof -
  let ?E = "example_env (\<lambda>s t f. False)"
  let ?c = "example_config ''data'' (PList [PInt 12, PInt 120, PInt 24]) (PInt 42)"
  have "\<exists>r. single_run ?E ?c ''./exp/2021_baseline'' (PStr ''0'') PNone PNone False = Inr r"
    by (rule example_run) simp_all
  then obtain r where
    r: "single_run ?E ?c ''./exp/2021_baseline'' (PStr ''0'') PNone PNone False = Inr r" ..
  have e: "run_epoch_len r = 0"
    using example_run_epoch_len[OF r] by simp
  have bs: "getitem2 ?c ''training'' ''batch_size'' =
      Inr (PList (PInt 12 # PInt 120 # PInt 24 # []))"
    by (simp add: getitem2_def example_config_def)
  have acc: "getitem2 ?c ''training'' ''accumulate_batches'' = Inr (PInt 1)"
    by (simp add: getitem2_def example_config_def)
  from single_run_epoch_len[OF bs acc r] obtain v0 v1 v2 where
    tr: "train_data (desed_training r) = [v0, v1, v2]" "kind v1 = WeakSet" by blast
  have ph: "phases r = run_phases PNone" using r by (rule single_run_InrD)
  have "kind (train_data (desed_training r) ! 1) = WeakSet"
    "dataset_len ?E (train_data (desed_training r) ! 1) = 90"
    "TrainerFit \<in> set (phases r)"
    by (simp_all add: tr example_env_def ph run_phases_def)
  with r e show ?thesis by auto
qed

section \<open>Regenerating the duration files\<close>

text \<open>
  Claim C3 says that each of the two duration files is regenerated if and only if it is
  missing or resampling any of the five folders produced new files. The loop of lines
  34--37 assigns every result of \<^verbatim>\<open>resample_folder\<close> to the same variable, so only the
  result for the last folder, \<^verbatim>\<open>test_folder\<close>, reaches line 40. Here resampling produces
  new files in \<^verbatim>\<open>synth_val_folder\<close> only and both duration files exist: the five folders
  are resampled and no duration file is regenerated.
\<close>

theorem stale_durations_after_resampling:
  "resample_folder (example_env (\<lambda>source target target_fs. target = PStr ''data/synth/val_16k''))
       (PStr ''data/synth/val'') (PStr ''data/synth/val_16k'') (PInt 16000)
   \<and> resample_data_generate_durations
       (example_env (\<lambda>source target target_fs. target = PStr ''data/synth/val_16k''))
       (example_data ''data'') =
     ([ResampleFolder (PStr ''data/synth/train'') (PStr ''data/synth/train_16k'') (PInt 16000),
       ResampleFolder (PStr ''data/synth/val'') (PStr ''data/synth/val_16k'') (PInt 16000),
       ResampleFolder (PStr ''data/weak'') (PStr ''data/weak_16k'') (PInt 16000),
       ResampleFolder (PStr ''data/unlabel'') (PStr ''data/unlabel_16k'') (PInt 16000),
       ResampleFolder (PStr ''data/test'') (PStr ''data/test_16k'') (PInt 16000)],
      Inr ())"
  by (simp add: resample_data_generate_durations_def dsets_def example_data_def example_env_def)

section \<open>The weak train/validation split\<close>

text \<open>
  Claim C4. For a weak set of \<open>n\<close> rows (\<open>0 < n\<close>), a fraction \<open>q\<close> between 0 and 1 and an
  integer seed \<open>s\<close> that \<^verbatim>\<open>RandomState\<close> accepts, the split returns, and it is a function of
  the rows read, the fraction and the permutation that the generator seeded with \<open>s\<close>
  gives: two environments that read the same rows and whose generators agree at \<open>s\<close>
  make the same split. The training frame holds \<open>k = round (q * n)\<close> rows, the product
  being the one of double-precision floats and the rounding Python's, at the first \<open>k\<close>
  positions of that permutation; the validation frame holds the \<open>n - k\<close> other rows, in the
  order of the file. The positions sampled are distinct, the two parts are disjoint, their
  union is the set of rows read, and both are reindexed from 0. With 100 rows and a
  fraction of 0.9 the parts have 90 and 10 rows. The last conjunct places the two frames
  in the weak training view and the weak validation view of a run of \<^verbatim>\<open>single_run\<close>.
\<close>

theorem weak_split_partition:
  assumes tsv: "getitem2 config ''data'' ''weak_tsv'' = Inr tsv"
      and ws: "getitem2 config ''training'' ''weak_split'' = Inr (PFloat q)"
      and seed: "getitem2 config ''training'' ''seed'' = Inr (PInt s)"
      and s: "0 \<le> s" "s < 2 ^ 32"
      and q: "0 \<le> q" "q \<le> 1"
      and ne: "read_csv E tsv \<noteq> []"
      and n: "length (read_csv E tsv) < 2 ^ 53"
  shows "(let rows = read_csv E tsv; n = length rows;
              k = nat (py_round (fl (fl q * of_nat n)));
              locs = take k (permutation_of E (PInt s) n);
              S = map (\<lambda>i. (i, rows ! i)) locs;
              V = filter (\<lambda>p. fst p \<notin> set locs) (range_index rows)
          in df_sample E (PFloat q) (PInt s) (range_index rows) = Inr S
           \<and> weak_train_valid_split E (PFloat q) (PInt s) (range_index rows)
               = Inr (reset_index S, reset_index V)
           \<and> k \<le> n
           \<and> length (reset_index S) = k
           \<and> length (reset_index V) = n - k
           \<and> distinct locs
           \<and> set locs \<subseteq> {0..<n}
           \<and> set (map fst S) \<inter> set (map fst V) = {}
           \<and> set (map fst S) \<union> set (map fst V) = {0..<n}
           \<and> set S \<inter> set V = {}
           \<and> set S \<union> set V = set (range_index rows)
           \<and> mset (map snd (reset_index S)) + mset (map snd (reset_index V)) = mset rows
           \<and> map fst (reset_index S) = [0..<k]
           \<and> map fst (reset_index V) = [0..<n - k]
           \<and> map snd (reset_index S) = map (\<lambda>i. rows ! i) locs
           \<and> map snd (reset_index V) = map snd V
           \<and> (n = 100 \<and> q = 9 / 10 \<longrightarrow> length (reset_index S) = 90 \<and> length (reset_index V) = 10)
           \<and> (\<forall>E'. read_csv E' tsv = rows
                  \<and> rng_permutation E' (PInt s) n = rng_permutation E (PInt s) n \<longrightarrow>
                 weak_train_valid_split E' (PFloat q) (PInt s) (range_index (read_csv E' tsv))
                   = Inr (reset_index S, reset_index V))
           \<and> (single_run E config ld gp ck sd fd = Inr r \<longrightarrow>
                 kind (train_data (desed_training r) ! 1) = WeakSet
               \<and> frame (train_data (desed_training r) ! 1) = Some (reset_index S)
               \<and> kind (valid_data (desed_training r) ! 1) = WeakSet
               \<and> frame (valid_data (desed_training r) ! 1) = Some (reset_index V)))"
proof -
  define rows where "rows = read_csv E tsv"
  define n where "n = length rows"
  define c where "c = py_round (fl (fl q * of_nat n))"
  define k where "k = nat c"
  define locs where "locs = take k (permutation_of E (PInt s) n)"
  define S where "S = map (\<lambda>i. (i, rows ! i)) locs"
  define V where "V = filter (\<lambda>p. fst p \<notin> set locs) (range_index rows)"
  have nn: "n < 2 ^ 53" and ne': "rows \<noteq> []" using n ne by (simp_all add: n_def rows_def)
  note sz = sample_size_fraction[OF q nn, folded c_def]
  have sz1: "sample_size (PFloat q) (length rows) = Inr c"
    and c: "0 \<le> c" "c \<le> int (length rows)"
    using sz by (simp_all add: n_def)
  have rs: "random_state (PInt s) = Inr (PInt s)" using s by simp
  have kn: "k \<le> n" using c by (simp add: k_def n_def)
  have pq: "permutation_of E' (PInt s) n = permutation_of E (PInt s) n"
    if "rng_permutation E' (PInt s) n = rng_permutation E (PInt s) n" for E'
    using that by (simp add: permutation_of_def)
  note sp = sample_positions[OF c, of E "PInt s", folded n_def k_def, folded locs_def]
  have "\<And>i. i \<in> set locs \<Longrightarrow> i < n" using sp(2) by auto
  then have lt: "\<And>i. i \<in> set locs \<Longrightarrow> i < length rows" by (simp only: n_def)
  have S': "map (\<lambda>i. range_index rows ! i) locs = S"
    unfolding S_def using lt by (simp add: range_index_nth)
  have fS: "map fst S = locs" using sp(4) by (simp only: S')
  have sample: "df_sample E (PFloat q) (PInt s) (range_index rows) = Inr S"
    using df_sample_returns[OF rs sz1 c ne', of E] by (simp only: n_def[symmetric] k_def[symmetric] locs_def[symmetric] S')
  have split: "weak_train_valid_split E' (PFloat q) (PInt s) (range_index rows)
                 = Inr (reset_index S, reset_index V)"
    if "rng_permutation E' (PInt s) n = rng_permutation E (PInt s) n" for E'
    using weak_split_returns[OF rs sz1 c ne', of E'] pq[OF that]
    by (simp only: n_def[symmetric] k_def[symmetric] locs_def[symmetric] S' V_def[symmetric])
  have split0: "weak_train_valid_split E (PFloat q) (PInt s) (range_index rows)
                 = Inr (reset_index S, reset_index V)"
    by (rule split) simp
  have ddf: "distinct (map fst (range_index rows))" by simp
  have dS: "distinct (map fst S)" using sp(1) by (simp only: fS)
  have sub: "set S \<subseteq> set (range_index rows)" using sp(5) by (simp only: S')
  note ds = drop_sampled[OF ddf dS sub, unfolded fS, folded V_def]
  have lS: "length S = k" using sp(3) by (simp add: S_def)
  have "mset (S @ V) = mset (range_index rows)" using ds(4) by simp
  then have "length (S @ V) = length (range_index rows)" by (rule mset_eq_length)
  then have lV: "length V = n - k" using lS by (simp add: n_def)
  have un: "set locs \<union> set (map fst V) = {0..<n}" using ds(3) by (simp add: n_def)
  have "image_mset snd (mset S) + image_mset snd (mset V) = image_mset snd (mset (range_index rows))"
    using ds(4) by (metis image_mset_union)
  then have "mset (map snd S) + mset (map snd V) = mset (map snd (range_index rows))"
    by (simp only: mset_map)
  then have ms: "mset (map snd (reset_index S)) + mset (map snd (reset_index V)) = mset rows"
    by (simp only: map_snd_reset_index map_snd_range_index)
  have sS: "map snd S = map (\<lambda>i. rows ! i) locs" by (simp add: S_def comp_def)
  have disj: "set S \<inter> set V = {}"
  proof -
    have "fst p \<in> set locs" if "p \<in> set S" for p using that fS by (metis image_eqI set_map)
    then show ?thesis by (auto simp: V_def)
  qed
  have "set_mset (mset S + mset V) = set_mset (mset (range_index rows))" by (simp only: ds(4))
  then have cover: "set S \<union> set V = set (range_index rows)" by simp
  have inst: "length S = 90 \<and> length V = 10" if "n = 100" "q = 9 / 10"
  proof -
    have "c = py_round (fl (fl (9 / 10) * 100))" unfolding c_def that by simp
    then have "c = 90" by (simp only: example_count)
    then show ?thesis using lS lV that by (simp add: k_def)
  qed
  have run: "kind (train_data (desed_training r) ! 1) = WeakSet
           \<and> frame (train_data (desed_training r) ! 1) = Some (reset_index S)
           \<and> kind (valid_data (desed_training r) ! 1) = WeakSet
           \<and> frame (valid_data (desed_training r) ! 1) = Some (reset_index V)"
    if r: "single_run E config ld gp ck sd fd = Inr r"
    using single_run_weak_frames[OF r] tsv ws seed split0 by (auto simp: rows_def)
  have det: "weak_train_valid_split E' (PFloat q) (PInt s) (range_index (read_csv E' tsv))
               = Inr (reset_index S, reset_index V)"
    if "read_csv E' tsv = rows" "rng_permutation E' (PInt s) n = rng_permutation E (PInt s) n" for E'
    using split[OF that(2)] by (simp only: that(1))
  have "df_sample E (PFloat q) (PInt s) (range_index rows) = Inr S
           \<and> weak_train_valid_split E (PFloat q) (PInt s) (range_index rows)
               = Inr (reset_index S, reset_index V)
           \<and> k \<le> n
           \<and> length (reset_index S) = k
           \<and> length (reset_index V) = n - k
           \<and> distinct locs
           \<and> set locs \<subseteq> {0..<n}
           \<and> set (map fst S) \<inter> set (map fst V) = {}
           \<and> set (map fst S) \<union> set (map fst V) = {0..<n}
           \<and> set S \<inter> set V = {}
           \<and> set S \<union> set V = set (range_index rows)
           \<and> mset (map snd (reset_index S)) + mset (map snd (reset_index V)) = mset rows
           \<and> map fst (reset_index S) = [0..<k]
           \<and> map fst (reset_index V) = [0..<n - k]
           \<and> map snd (reset_index S) = map (\<lambda>i. rows ! i) locs
           \<and> map snd (reset_index V) = map snd V
           \<and> (n = 100 \<and> q = 9 / 10 \<longrightarrow> length (reset_index S) = 90 \<and> length (reset_index V) = 10)
           \<and> (\<forall>E'. read_csv E' tsv = rows
                  \<and> rng_permutation E' (PInt s) n = rng_permutation E (PInt s) n \<longrightarrow>
                 weak_train_valid_split E' (PFloat q) (PInt s) (range_index (read_csv E' tsv))
                   = Inr (reset_index S, reset_index V))
           \<and> (single_run E config ld gp ck sd fd = Inr r \<longrightarrow>
                 kind (train_data (desed_training r) ! 1) = WeakSet
               \<and> frame (train_data (desed_training r) ! 1) = Some (reset_index S)
               \<and> kind (valid_data (desed_training r) ! 1) = WeakSet
               \<and> frame (valid_data (desed_training r) ! 1) = Some (reset_index V))"
    apply (intro conjI impI allI)
    subgoal by (rule sample)
    subgoal by (rule split0)
    subgoal by (rule kn)
    subgoal using lS by simp
    subgoal using lV by simp
    subgoal by (rule sp(1))
    subgoal by (rule sp(2))
    subgoal using ds(2) by (simp only: fS)
    subgoal using un by (simp only: fS)
    subgoal by (rule disj)
    subgoal by (rule cover)
    subgoal by (rule ms)
    subgoal using lS by simp
    subgoal using lV by simp
    subgoal using sS by simp
    subgoal by simp
    subgoal using inst by simp
    subgoal using inst by simp
    subgoal using det by blast
    subgoal using run by blast
    subgoal using run by blast
    subgoal using run by blast
    subgoal using run by blast
    done
  then show ?thesis
    unfolding Let_def rows_def[symmetric] n_def[symmetric] c_def[symmetric] k_def[symmetric]
      locs_def[symmetric] S_def[symmetric] V_def[symmetric] .
qed


theorem weak_split_partition_witness:
  "getitem2 (example_config ''data'' (PList [PInt 12, PInt 12, PInt 24]) (PInt 42)) ''data'' ''weak_tsv''
     = Inr (PStr ''data/weak.tsv'')
   \<and> getitem2 (example_config ''data'' (PList [PInt 12, PInt 12, PInt 24]) (PInt 42)) ''training'' ''weak_split''
     = Inr (PFloat (9 / 10))
   \<and> getitem2 (example_config ''data'' (PList [PInt 12, PInt 12, PInt 24]) (PInt 42)) ''training'' ''seed''
     = Inr (PInt 42)
   \<and> read_csv (example_env (\<lambda>s t f. False)) (PStr ''data/weak.tsv'') = example_rows 100
   \<and> length (example_rows 100) = 100
   \<and> sample_size (PFloat (9 / 10)) 100 = Inr 90
   \<and> (\<exists>tr va.
       weak_train_valid_split (example_env (\<lambda>s t f. False)) (PFloat (9 / 10)) (PInt 42)
         (range_index (example_rows 100)) = Inr (tr, va)
     \<and> length tr = 90 \<and> length va = 10
     \<and> map fst tr = [0..<90] \<and> map fst va = [0..<10]
     \<and> map snd tr = map (\<lambda>i. example_rows 100 ! i) (take 90 (rotate 42 [0..<100]))
     \<and> mset (map snd tr) + mset (map snd va) = mset (example_rows 100))"
proof -
  let ?E = "example_env (\<lambda>s t f. False)"
  let ?c = "example_config ''data'' (PList [PInt 12, PInt 12, PInt 24]) (PInt 42)"
  let ?rows = "example_rows 100"
  let ?locs = "take 90 (rotate 42 [0..<100])"
  let ?S = "map (\<lambda>i. (i, ?rows ! i)) ?locs"
  let ?V = "filter (\<lambda>p. fst p \<notin> set ?locs) (range_index ?rows)"
  have rd: "read_csv ?E (PStr ''data/weak.tsv'') = ?rows"
    by (simp add: example_env_def)
  have lk: "getitem2 ?c ''data'' ''weak_tsv'' = Inr (PStr ''data/weak.tsv'')"
      "getitem2 ?c ''training'' ''weak_split'' = Inr (PFloat (9 / 10))"
      "getitem2 ?c ''training'' ''seed'' = Inr (PInt 42)"
    by (simp_all add: getitem2_def example_config_def example_data_def)
  have ne: "read_csv ?E (PStr ''data/weak.tsv'') \<noteq> []"
    unfolding rd using length_example_rows[of 100] by (metis length_0_conv zero_neq_numeral)
  have n: "length (read_csv ?E (PStr ''data/weak.tsv'')) < 2 ^ 53"
    unfolding rd by simp
  have pm: "permutation_of ?E (PInt 42) 100 = rotate 42 [0..<100]"
    by (simp add: example_permutation)
  have k: "nat (py_round (fl (fl (9 / 10) * of_nat (100::nat)))) = 90"
    using example_count by simp
  note w = weak_split_partition[OF lk _ _ _ _ ne n, of ld gp ck sd fd r,
      unfolded Let_def rd length_example_rows k pm]
  have w': "weak_train_valid_split ?E (PFloat (9 / 10)) (PInt 42) (range_index ?rows)
              = Inr (reset_index ?S, reset_index ?V)"
      "length (reset_index ?S) = 90" "length (reset_index ?V) = 100 - 90"
      "map fst (reset_index ?S) = [0..<90]" "map fst (reset_index ?V) = [0..<100 - 90]"
      "map snd (reset_index ?S) = map (\<lambda>i. ?rows ! i) ?locs"
      "mset (map snd (reset_index ?S)) + mset (map snd (reset_index ?V)) = mset ?rows"
    using w by simp_all
  have "\<exists>tr va.
       weak_train_valid_split ?E (PFloat (9 / 10)) (PInt 42) (range_index ?rows) = Inr (tr, va)
     \<and> length tr = 90 \<and> length va = 10
     \<and> map fst tr = [0..<90] \<and> map fst va = [0..<10]
     \<and> map snd tr = map (\<lambda>i. ?rows ! i) ?locs
     \<and> mset (map snd tr) + mset (map snd va) = mset ?rows"
    using w' by (intro exI[of _ "reset_index ?S"] exI[of _ "reset_index ?V"]) simp
  then show ?thesis
    using lk rd example_sample_size by simp
qed

section \<open>Testing from a checkpoint\<close>

text \<open>
  Claim C5. With \<^verbatim>\<open>--test_from_checkpoint\<close>, the configuration that the entry point
  passes to \<^verbatim>\<open>single_run\<close> is the checkpoint's \<^verbatim>\<open>hyper_parameters\<close> with its
  \<^verbatim>\<open>data\<close> section replaced by the \<^verbatim>\<open>data\<close> section of the configuration file of this
  invocation; every other section (\<^verbatim>\<open>net\<close>, \<^verbatim>\<open>feats\<close>, \<^verbatim>\<open>training\<close>, \<^verbatim>\<open>opt\<close>, and
  any other key) is the checkpoint's. The state dictionary to test is the checkpoint's.
  The last conjunct follows the configuration into \<^verbatim>\<open>single_run\<close>, which adds its
  \<^verbatim>\<open>log_dir\<close> before handing it to the Lightning module.
\<close>

theorem checkpoint_config_with_current_data:
  assumes ck: "test_from_checkpoint a = Some path"
      and hyper: "getitem (torch_load E path) ''hyper_parameters'' = Inr (PDict h)"
      and dat: "getitem (yaml_safe_load E (conf_file a)) ''data'' = Inr dat"
      and ep: "getitem (torch_load E path) ''epoch'' = Inr ep"
      and st: "getitem (torch_load E path) ''state_dict'' = Inr st"
  shows "load_configs E a = Inr (PDict (AList.update ''data'' dat h), st)
       \<and> getitem (PDict (AList.update ''data'' dat h)) ''data'' = Inr dat
       \<and> (\<forall>k. k \<noteq> ''data'' \<longrightarrow>
             getitem (PDict (AList.update ''data'' dat h)) k = getitem (PDict h) k)
       \<and> (\<forall>r. snd (main E a) = Inr r \<longrightarrow>
             hparams (desed_training r) =
               PDict (AList.update ''log_dir'' (PStr (log_dir a)) (AList.update ''data'' dat h)))"
proof -
  have lc: "load_configs E a = Inr (PDict (AList.update ''data'' dat h), st)"
    unfolding load_configs_def by (simp add: ck hyper dat ep st Let_def)
  have "hparams (desed_training r) =
          PDict (AList.update ''log_dir'' (PStr (log_dir a)) (AList.update ''data'' dat h))"
    if "snd (main E a) = Inr r" for r
  proof -
    from main_InrD[OF that] lc obtain sd where
      "single_run E (PDict (AList.update ''data'' dat h)) (log_dir a) (PStr (arg_gpus a))
          (opt_str (arg_resume_from_checkpoint a)) sd (arg_fast_dev_run a) = Inr r"
      by auto
    from single_run_hparams[OF this] show ?thesis by simp
  qed
  with lc show ?thesis by (simp add: update_conv')
qed

theorem checkpoint_config_with_current_data_witness:
  "load_configs (example_env (\<lambda>s t f. False)) (example_args ''./confs/sed.yaml'' (Some ''best.ckpt''))
     = Inr (example_config ''data'' (PList [PInt 24, PInt 24, PInt 48]) (PInt 7),
            PDict [(''sed_student.dense.bias'', PList [PFloat 0])])
   \<and> getitem (example_config ''data'' (PList [PInt 24, PInt 24, PInt 48]) (PInt 7)) ''data''
       = getitem (yaml_safe_load (example_env (\<lambda>s t f. False)) ''./confs/sed.yaml'') ''data''
   \<and> getitem (example_config ''data'' (PList [PInt 24, PInt 24, PInt 48]) (PInt 7)) ''training''
       = getitem (example_config ''old_data'' (PList [PInt 24, PInt 24, PInt 48]) (PInt 7)) ''training''
   \<and> getitem (example_config ''old_data'' (PList [PInt 24, PInt 24, PInt 48]) (PInt 7)) ''data''
       \<noteq> getitem (yaml_safe_load (example_env (\<lambda>s t f. False)) ''./confs/sed.yaml'') ''data''
   \<and> (\<exists>r. snd (main (example_env (\<lambda>s t f. False))
                  (example_args ''./confs/sed.yaml'' (Some ''best.ckpt''))) = Inr r
          \<and> getitem2 (hparams (desed_training r)) ''training'' ''seed'' = Inr (PInt 7)
          \<and> getitem2 (hparams (desed_training r)) ''data'' ''weak_tsv'' = Inr (PStr ''data/weak.tsv'')
          \<and> getitem (hparams (desed_training r)) ''log_dir'' = Inr (PStr ''./exp/2021_baseline''))"
proof -
  let ?E = "example_env (\<lambda>s t f. False)"
  let ?a = "example_args ''./confs/sed.yaml'' (Some ''best.ckpt'')"
  let ?old = "example_config ''old_data'' (PList [PInt 24, PInt 24, PInt 48]) (PInt 7)"
  let ?new = "example_config ''data'' (PList [PInt 24, PInt 24, PInt 48]) (PInt 7)"
  obtain h where h: "?old = PDict h" by (simp add: example_config_def)
  have ck: "test_from_checkpoint ?a = Some ''best.ckpt''" by (simp add: example_args_def)
  have hyper: "getitem (torch_load ?E ''best.ckpt'') ''hyper_parameters'' = Inr (PDict h)"
    unfolding h[symmetric] by (simp add: example_env_def)
  have dat: "getitem (yaml_safe_load ?E (conf_file ?a)) ''data'' = Inr (example_data ''data'')"
    by (simp add: example_env_def example_args_def example_config_def)
  have ep: "getitem (torch_load ?E ''best.ckpt'') ''epoch'' = Inr (PInt 57)"
    by (simp add: example_env_def)
  have st: "getitem (torch_load ?E ''best.ckpt'') ''state_dict'' =
      Inr (PDict [(''sed_student.dense.bias'', PList [PFloat 0])])"
    by (simp add: example_env_def)
  have new: "PDict (AList.update ''data'' (example_data ''data'') h) = ?new"
    using h by (auto simp: example_config_def)
  note w = checkpoint_config_with_current_data[OF ck hyper dat ep st, unfolded new]
  have "\<exists>r. snd (main ?E ?a) = Inr r"
    by (rule example_main[OF example_load_configs_checkpoint]) simp_all
  then obtain r where r: "snd (main ?E ?a) = Inr r" ..
  with w have hp: "hparams (desed_training r) =
      PDict (AList.update ''log_dir'' (PStr (log_dir ?a)) (AList.update ''data'' (example_data ''data'') h))"
    by blast
  have hp': "dict_update ?new ''log_dir'' (PStr ''./exp/2021_baseline'') = Inr (hparams (desed_training r))"
    unfolding hp new[symmetric] by (simp add: example_args_def)
  have A: "getitem2 (hparams (desed_training r)) ''training'' ''seed'' = Inr (PInt 7)"
      "getitem2 (hparams (desed_training r)) ''data'' ''weak_tsv'' = Inr (PStr ''data/weak.tsv'')"
    by (simp_all add: getitem2_dict_update[OF hp'])
       (simp_all add: getitem2_def example_config_def example_data_def)
  have B: "getitem (hparams (desed_training r)) ''log_dir'' = Inr (PStr ''./exp/2021_baseline'')"
    by (rule getitem_dict_update_same[OF hp'])
  have C: "getitem ?new ''data'' = getitem (yaml_safe_load ?E ''./confs/sed.yaml'') ''data''"
    using w dat by (simp add: example_args_def)
  have D: "getitem ?new ''training'' = getitem ?old ''training''"
    using w h by simp
  have E: "getitem ?old ''data'' \<noteq> getitem (yaml_safe_load ?E ''./confs/sed.yaml'') ''data''"
    by (simp add: example_env_def example_config_def example_data_def)
  from w r A B C D E show ?thesis by blast
qed

section \<open>Seeding the global generators\<close>

text \<open>
  Claim C9. In a run of the program whose configuration has a seed, a call that seeds a
  global generator is made if and only if the seed is true. When it is, the seeding calls
  are the first calls of the program, in the order torch, numpy, random, lightning, up to
  the first one that raises; all four are made when none raises, and in every run that
  reaches the end. A seed that is false, 0 in particular, makes no such call. In every run
  that reaches the end, the weak training frame is the sample drawn with the seed of the
  configuration as its random state, so with the random state 0 when the seed is 0.
\<close>

theorem seeding_iff_truthy_seed:
  assumes lc: "load_configs E a = Inr (configs, sd)"
      and seed: "getitem2 configs ''training'' ''seed'' = Inr seed"
  shows "(let calls = filter is_seeding (fst (main E a));
              four = [TorchManualSeed seed, NpRandomSeed seed, RandomSeed seed,
                      PlSeedEverything seed]
          in (calls \<noteq> [] \<longleftrightarrow> truthy seed)
           \<and> (truthy seed \<longrightarrow>
                (\<exists>m. 1 \<le> m \<and> m \<le> 4 \<and> calls = take m four)
              \<and> take (length calls) (fst (main E a)) = calls)
           \<and> (truthy seed \<and> seed_raises E seed 0 = None \<and> seed_raises E seed 1 = None
                \<and> seed_raises E seed 2 = None \<and> seed_raises E seed 3 = None \<longrightarrow> calls = four)
           \<and> (\<not> truthy seed \<longrightarrow> calls = [])
           \<and> (seed = PInt 0 \<longrightarrow> calls = [])
           \<and> (\<forall>r. snd (main E a) = Inr r \<longrightarrow>
                (truthy seed \<longrightarrow> calls = four)
              \<and> (\<exists>tsv fraction rs k S.
                    getitem2 configs ''data'' ''weak_tsv'' = Inr tsv
                  \<and> getitem2 configs ''training'' ''weak_split'' = Inr fraction
                  \<and> random_state seed = Inr rs
                  \<and> (seed = PInt 0 \<longrightarrow> rs = PInt 0)
                  \<and> sample_size fraction (length (read_csv E tsv)) = Inr k
                  \<and> df_sample E fraction seed (range_index (read_csv E tsv)) = Inr S
                  \<and> S = map (\<lambda>i. range_index (read_csv E tsv) ! i)
                          (take (nat k) (permutation_of E rs (length (read_csv E tsv))))
                  \<and> kind (train_data (desed_training r) ! 1) = WeakSet
                  \<and> frame (train_data (desed_training r) ! 1) = Some (reset_index S))))"
proof -
  let ?four = "[TorchManualSeed seed, NpRandomSeed seed, RandomSeed seed, PlSeedEverything seed]"
  define calls where "calls = filter is_seeding (fst (main E a))"
  note ms = main_seeding_calls[OF lc seed]
  have calls: "calls = fst (seed_everything E seed)" by (simp add: calls_def ms(1))
  have falsy: "calls = []" if "\<not> truthy seed"
    using that by (simp add: calls seed_everything_falsy)
  have pre: "\<exists>m. 1 \<le> m \<and> m \<le> 4 \<and> calls = take m ?four" if "truthy seed"
    unfolding calls using that by (rule seed_everything_calls)
  have ne: "calls \<noteq> []" if "truthy seed"
  proof -
    from pre[OF that] obtain m where "1 \<le> m" "calls = take m ?four" by blast
    then show ?thesis by (cases m) simp_all
  qed
  have iff: "calls \<noteq> [] \<longleftrightarrow> truthy seed" using ne falsy by blast
  have first: "take (length calls) (fst (main E a)) = calls"
    unfolding calls by (rule ms(2))
  have all: "calls = ?four"
    if "truthy seed" "seed_raises E seed 0 = None" "seed_raises E seed 1 = None"
       "seed_raises E seed 2 = None" "seed_raises E seed 3 = None"
    unfolding calls using seed_everything_four[OF that] by simp
  have zero: "calls = []" if "seed = PInt 0"
    using that by (intro falsy) simp
  have ret: "(truthy seed \<longrightarrow> calls = ?four)
              \<and> (\<exists>tsv fraction rs k S.
                    getitem2 configs ''data'' ''weak_tsv'' = Inr tsv
                  \<and> getitem2 configs ''training'' ''weak_split'' = Inr fraction
                  \<and> random_state seed = Inr rs
                  \<and> (seed = PInt 0 \<longrightarrow> rs = PInt 0)
                  \<and> sample_size fraction (length (read_csv E tsv)) = Inr k
                  \<and> df_sample E fraction seed (range_index (read_csv E tsv)) = Inr S
                  \<and> S = map (\<lambda>i. range_index (read_csv E tsv) ! i)
                          (take (nat k) (permutation_of E rs (length (read_csv E tsv))))
                  \<and> kind (train_data (desed_training r) ! 1) = WeakSet
                  \<and> frame (train_data (desed_training r) ! 1) = Some (reset_index S))"
    if r: "snd (main E a) = Inr r" for r
  proof
    note mw = main_weak_sample[OF lc seed r]
    show "truthy seed \<longrightarrow> calls = ?four"
    proof
      assume t: "truthy seed"
      from seed_everything_returns[OF t mw(1)] show "calls = ?four" by (simp only: calls)
    qed
    from mw(2) obtain tsv fraction rs k S where
      w: "getitem2 configs ''data'' ''weak_tsv'' = Inr tsv"
         "getitem2 configs ''training'' ''weak_split'' = Inr fraction"
         "random_state seed = Inr rs"
         "sample_size fraction (length (read_csv E tsv)) = Inr k"
         "df_sample E fraction seed (range_index (read_csv E tsv)) = Inr S"
         "S = map (\<lambda>i. range_index (read_csv E tsv) ! i)
                 (take (nat k) (permutation_of E rs (length (read_csv E tsv))))"
         "kind (train_data (desed_training r) ! 1) = WeakSet"
         "frame (train_data (desed_training r) ! 1) = Some (reset_index S)"
      by blast
    have "seed = PInt 0 \<longrightarrow> rs = PInt 0" using w(3) by auto
    with w show "\<exists>tsv fraction rs k S.
                    getitem2 configs ''data'' ''weak_tsv'' = Inr tsv
                  \<and> getitem2 configs ''training'' ''weak_split'' = Inr fraction
                  \<and> random_state seed = Inr rs
                  \<and> (seed = PInt 0 \<longrightarrow> rs = PInt 0)
                  \<and> sample_size fraction (length (read_csv E tsv)) = Inr k
                  \<and> df_sample E fraction seed (range_index (read_csv E tsv)) = Inr S
                  \<and> S = map (\<lambda>i. range_index (read_csv E tsv) ! i)
                          (take (nat k) (permutation_of E rs (length (read_csv E tsv))))
                  \<and> kind (train_data (desed_training r) ! 1) = WeakSet
                  \<and> frame (train_data (desed_training r) ! 1) = Some (reset_index S)"
      by blast
  qed
  show ?thesis
    unfolding Let_def calls_def[symmetric]
    using iff pre first all falsy zero ret by blast
qed


theorem seeding_iff_truthy_seed_witness:
  "load_configs (example_env (\<lambda>s t f. False)) (example_args ''./confs/seed0.yaml'' None)
     = Inr (example_config ''data'' (PList [PInt 12, PInt 12, PInt 24]) (PInt 0), PNone)
   \<and> getitem2 (example_config ''data'' (PList [PInt 12, PInt 12, PInt 24]) (PInt 0))
         ''training'' ''seed'' = Inr (PInt 0)
   \<and> filter is_seeding
         (fst (main (example_env (\<lambda>s t f. False)) (example_args ''./confs/seed0.yaml'' None))) = []
   \<and> (\<exists>r S. snd (main (example_env (\<lambda>s t f. False)) (example_args ''./confs/seed0.yaml'' None))
                = Inr r
          \<and> random_state (PInt 0) = Inr (PInt 0)
          \<and> df_sample (example_env (\<lambda>s t f. False)) (PFloat (9 / 10)) (PInt 0)
                (range_index (example_rows 100)) = Inr S
          \<and> S = map (\<lambda>i. range_index (example_rows 100) ! i)
                  (take 90 (permutation_of (example_env (\<lambda>s t f. False)) (PInt 0) 100))
          \<and> kind (train_data (desed_training r) ! 1) = WeakSet
          \<and> frame (train_data (desed_training r) ! 1) = Some (reset_index S))
   \<and> load_configs (example_env (\<lambda>s t f. False)) (example_args ''./confs/sed.yaml'' None)
     = Inr (example_config ''data'' (PList [PInt 12, PInt 12, PInt 24]) (PInt 42), PNone)
   \<and> getitem2 (example_config ''data'' (PList [PInt 12, PInt 12, PInt 24]) (PInt 42))
         ''training'' ''seed'' = Inr (PInt 42)
   \<and> filter is_seeding
         (fst (main (example_env (\<lambda>s t f. False)) (example_args ''./confs/sed.yaml'' None)))
       = [TorchManualSeed (PInt 42), NpRandomSeed (PInt 42), RandomSeed (PInt 42),
          PlSeedEverything (PInt 42)]"
proof -
  let ?E = "example_env (\<lambda>s t f. False)"
  let ?a0 = "example_args ''./confs/seed0.yaml'' None"
  let ?a1 = "example_args ''./confs/sed.yaml'' None"
  let ?c0 = "example_config ''data'' (PList [PInt 12, PInt 12, PInt 24]) (PInt 0)"
  let ?c1 = "example_config ''data'' (PList [PInt 12, PInt 12, PInt 24]) (PInt 42)"
  have lc0: "load_configs ?E ?a0 = Inr (?c0, PNone)"
    by (simp add: example_load_configs_plain)
  have lc1: "load_configs ?E ?a1 = Inr (?c1, PNone)"
    by (simp add: example_load_configs_plain)
  have s0: "getitem2 ?c0 ''training'' ''seed'' = Inr (PInt 0)"
    by (simp add: getitem2_def example_config_def)
  have s1: "getitem2 ?c1 ''training'' ''seed'' = Inr (PInt 42)"
    by (simp add: getitem2_def example_config_def)
  have lk: "getitem2 ?c0 ''data'' ''weak_tsv'' = Inr (PStr ''data/weak.tsv'')"
      "getitem2 ?c0 ''training'' ''weak_split'' = Inr (PFloat (9 / 10))"
    by (simp_all add: getitem2_def example_config_def example_data_def)
  have rd: "read_csv ?E (PStr ''data/weak.tsv'') = example_rows 100"
    by (simp add: example_env_def)
  have sr: "seed_raises ?E (PInt 42) 0 = None" "seed_raises ?E (PInt 42) 1 = None"
      "seed_raises ?E (PInt 42) 2 = None" "seed_raises ?E (PInt 42) 3 = None"
    by (simp_all add: example_env_def)
  note t0 = seeding_iff_truthy_seed[OF lc0 s0, unfolded Let_def]
  note t1 = seeding_iff_truthy_seed[OF lc1 s1, unfolded Let_def]
  have none: "filter is_seeding (fst (main ?E ?a0)) = []"
    using t0 by simp
  have four: "filter is_seeding (fst (main ?E ?a1))
       = [TorchManualSeed (PInt 42), NpRandomSeed (PInt 42), RandomSeed (PInt 42),
          PlSeedEverything (PInt 42)]"
    using t1 sr by simp
  have "\<exists>r. snd (main ?E ?a0) = Inr r"
    using lc0 by (rule example_main) simp_all
  then obtain r where r: "snd (main ?E ?a0) = Inr r" ..
  from t0 r obtain tsv fraction rs k S where
    w: "getitem2 ?c0 ''data'' ''weak_tsv'' = Inr tsv"
       "getitem2 ?c0 ''training'' ''weak_split'' = Inr fraction"
       "random_state (PInt 0) = Inr rs"
       "sample_size fraction (length (read_csv ?E tsv)) = Inr k"
       "df_sample ?E fraction (PInt 0) (range_index (read_csv ?E tsv)) = Inr S"
       "S = map (\<lambda>i. range_index (read_csv ?E tsv) ! i)
               (take (nat k) (permutation_of ?E rs (length (read_csv ?E tsv))))"
       "kind (train_data (desed_training r) ! 1) = WeakSet"
       "frame (train_data (desed_training r) ! 1) = Some (reset_index S)"
    by blast
  have e: "tsv = PStr ''data/weak.tsv''" "fraction = PFloat (9 / 10)" "rs = PInt 0"
    using w(1,2,3) lk by simp_all
  have k: "k = 90"
    using w(4) unfolding e rd length_example_rows example_sample_size by simp
  have "snd (main ?E ?a0) = Inr r
          \<and> random_state (PInt 0) = Inr (PInt 0)
          \<and> df_sample ?E (PFloat (9 / 10)) (PInt 0) (range_index (example_rows 100)) = Inr S
          \<and> S = map (\<lambda>i. range_index (example_rows 100) ! i)
                  (take 90 (permutation_of ?E (PInt 0) 100))
          \<and> kind (train_data (desed_training r) ! 1) = WeakSet
          \<and> frame (train_data (desed_training r) ! 1) = Some (reset_index S)"
    using r w(5,6,7,8) unfolding e k rd length_example_rows by simp
  then have ex: "\<exists>r S. snd (main ?E ?a0) = Inr r
          \<and> random_state (PInt 0) = Inr (PInt 0)
          \<and> df_sample ?E (PFloat (9 / 10)) (PInt 0) (range_index (example_rows 100)) = Inr S
          \<and> S = map (\<lambda>i. range_index (example_rows 100) ! i)
                  (take 90 (permutation_of ?E (PInt 0) 100))
          \<and> kind (train_data (desed_training r) ! 1) = WeakSet
          \<and> frame (train_data (desed_training r) ! 1) = Some (reset_index S)"
    by blast
  show ?thesis
    using lc0 s0 none ex lc1 s1 four by (intro conjI)
qed

end
